theory Spec2Isabelle
  imports Complex_Main "HOL-Library.AList" "HOL-Library.Log_Nat"
begin

section \<open>Python values, dictionaries and exceptions\<close>

text \<open>
  The plugin \<^verbatim>\<open>zookeeperjmx.py\<close> works on JSON-shaped Python values: the answers of the
  Jolokia agent and the flat metric dictionary \<^verbatim>\<open>dict_jmx\<close> that each extraction routine
  fills. A number is a rational: a Python \<^verbatim>\<open>int\<close> is its value, and a Python
  \<^verbatim>\<open>float\<close>, a binary64 number, is written as a rational that it is the nearest
  binary64 number to (so \<open>1 / 100\<close> stands for the float \<^verbatim>\<open>0.01\<close>, and the two zeros
  of binary64 are one number). The arithmetic on floats rounds to binary64, see \<open>fl\<close>
  below. A dictionary is an association list read with \<open>map_of\<close>, written with
  \<open>AList.update\<close> and shrunk with \<open>AList.delete\<close>.
\<close>

datatype pyval =
    PNone
  | PBool bool
  | PNum rat
  | PStr string
  | PList "pyval list"
  | PDict "(string \<times> pyval) list"

type_synonym dict = "(string \<times> pyval) list"

text \<open>
  Exceptions are values. \<open>NoDataFound\<close> is the \<^verbatim>\<open>Exception("No data found")\<close> of
  \<^verbatim>\<open>get_pid_jmx_stats\<close>. \<open>NotModelled\<close> is not a Python exception: it marks the one
  place where this development does not say what Python 2 computes (the ordering of two
  strings, two lists or two dictionaries).
\<close>

datatype error =
    KeyError
  | IndexError
  | TypeError
  | AttributeError
  | ZeroDivisionError
  | OverflowError
  | NoDataFound
  | NotModelled

text \<open>\<^verbatim>\<open>d[k]\<close> on a dictionary raises \<^verbatim>\<open>KeyError\<close> for a missing key.\<close>

definition getitem :: "dict \<Rightarrow> string \<Rightarrow> error + pyval" where
  "getitem d k = (case map_of d k of None \<Rightarrow> Inl KeyError | Some v \<Rightarrow> Inr v)"

text \<open>Python's numbers: \<^verbatim>\<open>bool\<close> is a subtype of \<^verbatim>\<open>int\<close>.\<close>

fun as_num :: "pyval \<Rightarrow> rat option" where
  "as_num (PNum x) = Some x"
| "as_num (PBool b) = Some (if b then 1 else 0)"
| "as_num _ = None"

text \<open>\<^verbatim>\<open>a - b\<close>: defined on numbers, \<^verbatim>\<open>TypeError\<close> on every other JSON value.\<close>

definition py_sub :: "pyval \<Rightarrow> pyval \<Rightarrow> error + rat" where
  "py_sub a b =
     (case (as_num a, as_num b) of
        (Some x, Some y) \<Rightarrow> Inr (x - y)
      | _ \<Rightarrow> Inl TypeError)"

text \<open>
  \<^verbatim>\<open>a <= b\<close> in Python 2 never raises on JSON scalars: numbers compare by value,
  \<^verbatim>\<open>None\<close> is below everything, and every number is below every string, list and
  dictionary. The order among strings, lists and dictionaries is left out (\<open>None\<close>).
\<close>

fun py_le :: "pyval \<Rightarrow> pyval \<Rightarrow> bool option" where
  "py_le PNone _ = Some True"
| "py_le _ PNone = Some False"
| "py_le a b =
     (case (as_num a, as_num b) of
        (Some x, Some y) \<Rightarrow> Some (x \<le> y)
      | (Some x, None) \<Rightarrow> Some True
      | (None, Some y) \<Rightarrow> Some False
      | (None, None) \<Rightarrow> None)"

text \<open>
  \<^verbatim>\<open>round(x, n)\<close> of Python 2.7 on a float \<open>x\<close>: the decimal with \<open>n\<close> places
  nearest to the value that the float has, a tie going away from zero; the result is the
  float nearest to that decimal, which the decimal stands for. \<open>py_round\<close> is applied to
  the value of the float, that is, behind \<open>fl\<close>.
\<close>

definition py_round :: "rat \<Rightarrow> nat \<Rightarrow> rat" where
  "py_round x n =
     (if 0 \<le> x then of_int \<lfloor>x * 10 ^ n + 1 / 2\<rfloor> / 10 ^ n
      else - (of_int \<lfloor>- x * 10 ^ n + 1 / 2\<rfloor> / 10 ^ n))"

text \<open>
  Binary64. \<open>pow2 k\<close> is \<open>2\<close> to the power \<open>k\<close>, \<open>flog2 x\<close> the exponent of the
  binade of a positive \<open>x\<close> (the \<open>k\<close> with \<open>pow2 k \<le> x < pow2 (k + 1)\<close>), and
  \<open>round_half_even\<close> the nearest integer with ties to the even one. \<open>fl x\<close> is the
  value of the binary64 number nearest to \<open>x\<close>: 53 significant bits, down to the
  subnormal spacing \<open>pow2 (- 1074)\<close>. It is what an arithmetic operation on floats
  returns for the exact result \<open>x\<close>, and what the conversion of an \<^verbatim>\<open>int\<close> to
  \<^verbatim>\<open>float\<close> returns.
\<close>

definition pow2 :: "int \<Rightarrow> rat" where
  "pow2 k = (if 0 \<le> k then 2 ^ nat k else 1 / 2 ^ nat (- k))"

definition flog2 :: "rat \<Rightarrow> int" where
  "flog2 x = (if 1 \<le> x then bitlen \<lfloor>x\<rfloor> - 1 else - bitlen (\<lceil>1 / x\<rceil> - 1))"

definition round_half_even :: "rat \<Rightarrow> int" where
  "round_half_even y =
     (let f = \<lfloor>y\<rfloor>; r = y - of_int f
      in if r < 1 / 2 then f else if 1 / 2 < r then f + 1 else if even f then f else f + 1)"

definition fl :: "rat \<Rightarrow> rat" where
  "fl x =
     (if x = 0 then 0
      else (let e = max (- 1074) (flog2 \<bar>x\<bar> - 52)
            in sgn x * of_int (round_half_even (\<bar>x\<bar> / pow2 e)) * pow2 e))"

text \<open>
  The operand \<open>v\<close> of \<^verbatim>\<open>v / 1024.0\<close>, \<^verbatim>\<open>v * 0.001\<close> and
  \<^verbatim>\<open>v / 1000000000.0\<close> is converted to \<^verbatim>\<open>float\<close>. A number that rounds beyond the
  largest binary64 number, \<open>2 ^ 1024 - 2 ^ 971\<close>, can only be an \<^verbatim>\<open>int\<close>, and its
  conversion raises \<^verbatim>\<open>OverflowError\<close>.
\<close>

definition float_range :: "rat \<Rightarrow> bool" where
  "float_range x = (\<bar>x\<bar> < 2 ^ 1024 - 2 ^ 970)"

definition to_float :: "rat \<Rightarrow> error + rat" where
  "to_float x = (if float_range x then Inr (fl x) else Inl OverflowError)"

section \<open>The plugin object and its surroundings\<close>

text \<open>
  The names imported from the module \<^verbatim>\<open>constants\<close> are not part of the source under
  study. The two that the rate calculator reads are taken as parameters: the key
  \<^verbatim>\<open>TIMESTAMP\<close> of the capture time and the number \<^verbatim>\<open>FLOATING_FACTOR\<close> of decimals.
\<close>

record constants =
  TIMESTAMP :: string
  FLOATING_FACTOR :: nat

text \<open>
  Modelled from the spec: the constant \<^verbatim>\<open>NAN\<close> of the absent module \<^verbatim>\<open>constants\<close>. The
  spec calls it a NaN sentinel; it is a result of its own, different from every rate, and
  \<^verbatim>\<open>rate != NAN\<close> is the test for it.
\<close>

datatype rate = NAN | Rate rat

text \<open>
  The lines written with \<^verbatim>\<open>collectd.error\<close>, \<^verbatim>\<open>collectd.info\<close> and
  \<^verbatim>\<open>collectd.debug\<close> are kept as events with their arguments, not as formatted text.
\<close>

datatype log_entry =
    ErrKeyNotInPrev string
  | ErrTimeOrder pyval pyval
  | ErrNotSupportedMP pyval
  | ErrNotSupportedGC pyval
  | ErrLostResult
  | ErrNotRoot
  | ErrNoProcess
  | ErrCollect string error
  | ErrStartFailed string
  | InfoStarted string
  | InfoAdded string string
  | InfoCommon
  | InfoSent string
  | DebugDispatched dict
  | DebugRunning string

text \<open>
  Dictionaries are mutable objects and the rate calculator keeps references to them, so
  they live in a store: \<open>heap\<close> maps an address to the dictionary there and \<open>fresh\<close>
  is the next unused address. \<open>interval\<close> and \<open>prev_data\<close> are the attributes of the
  \<^verbatim>\<open>JmxStat\<close> object (\<open>prev_data\<close> maps a process id to the address of its stored
  sample). \<open>dispatched\<close> lists the records handed to \<^verbatim>\<open>utils.dispatch\<close>, \<open>logged\<close> the
  collectd log, and \<open>gets\<close> counts the calls of \<^verbatim>\<open>output.get_nowait()\<close>.
\<close>

type_synonym addr = nat

record jmxstat =
  interval :: rat
  prev_data :: "string \<rightharpoonup> addr"
  heap :: "addr \<Rightarrow> dict"
  fresh :: addr
  dispatched :: "dict list"
  logged :: "log_entry list"
  gets :: nat

definition setitem :: "addr \<Rightarrow> string \<Rightarrow> pyval \<Rightarrow> jmxstat \<Rightarrow> jmxstat" where
  "setitem a k v s = s\<lparr>heap := (heap s)(a := AList.update k v (heap s a))\<rparr>"

definition collectd_log :: "log_entry list \<Rightarrow> jmxstat \<Rightarrow> jmxstat" where
  "collectd_log es s = s\<lparr>logged := logged s @ es\<rparr>"

section \<open>Rate calculator\<close>

text \<open>\<^verbatim>\<open>add_default_rate_value\<close>: both rate keys get the value 0.\<close>

definition add_default_rate_value :: "addr \<Rightarrow> jmxstat \<Rightarrow> jmxstat" where
  "add_default_rate_value a s =
     fold (\<lambda>key. setitem a key (PNum 0)) [''packetsReceivedRate'', ''packetsSentRate''] s"

text \<open>
  \<^verbatim>\<open>get_rate(key, curr_data, prev_data)\<close>, with \<^verbatim>\<open>self.interval\<close> as \<open>itv\<close>. The
  result is the list of logged errors and either an exception or the returned rate. The
  subtraction is evaluated before the division, so a missing key or a value that is not a
  number is raised before a zero interval is.
\<close>

definition get_rate ::
  "constants \<Rightarrow> rat \<Rightarrow> string \<Rightarrow> dict \<Rightarrow> dict option \<Rightarrow> log_entry list \<times> (error + rate)" where
  "get_rate K itv key curr_data prev_sample =
     (case prev_sample of
        None \<Rightarrow> ([], Inr NAN)
      | Some prev \<Rightarrow>
          if prev = [] then ([], Inr NAN)
          else
            (case map_of prev key of
               None \<Rightarrow> ([ErrKeyNotInPrev key], Inr NAN)
             | Some p \<Rightarrow>
                 (case (map_of curr_data (TIMESTAMP K), map_of prev (TIMESTAMP K)) of
                    (Some curr_time, Some prev_time) \<Rightarrow>
                      (case py_le curr_time prev_time of
                         None \<Rightarrow> ([], Inl NotModelled)
                       | Some True \<Rightarrow> ([ErrTimeOrder curr_time prev_time], Inr NAN)
                       | Some False \<Rightarrow>
                           (case getitem curr_data key of
                              Inl e \<Rightarrow> ([], Inl e)
                            | Inr c \<Rightarrow>
                                (case py_sub c p of
                                   Inl e \<Rightarrow> ([], Inl e)
                                 | Inr diff \<Rightarrow>
                                     if itv = 0 then ([], Inl ZeroDivisionError)
                                     else
                                       (let r = diff / itv
                                        in ([], Inr (Rate (if r < 0 then 0 else r)))))))
                  | _ \<Rightarrow> ([ErrKeyNotInPrev key], Inr NAN))))"

text \<open>
  One of the two stanzas of \<^verbatim>\<open>add_rate\<close>: the rate of \<open>key\<close> between the dictionary
  at \<open>a\<close> and the stored sample of \<open>pid\<close>, attached under \<open>ratekey\<close> unless it is the
  sentinel. \<^verbatim>\<open>self.prev_data[pid]\<close> raises \<^verbatim>\<open>KeyError\<close> for an unknown process id.
  The rate that \<^verbatim>\<open>get_rate\<close> returns is a float, the one nearest to the quotient, and
  \<^verbatim>\<open>round(rate, FLOATING_FACTOR)\<close> rounds the value of that float.
\<close>

definition add_rate_key ::
  "constants \<Rightarrow> string \<Rightarrow> addr \<Rightarrow> string \<Rightarrow> string \<Rightarrow> jmxstat \<Rightarrow> error option \<times> jmxstat" where
  "add_rate_key K pid a key ratekey s =
     (case prev_data s pid of
        None \<Rightarrow> (Some KeyError, s)
      | Some p \<Rightarrow>
          (case get_rate K (interval s) key (heap s a) (Some (heap s p)) of
             (es, Inl e) \<Rightarrow> (Some e, collectd_log es s)
           | (es, Inr NAN) \<Rightarrow> (None, collectd_log es s)
           | (es, Inr (Rate r)) \<Rightarrow>
               (None, setitem a ratekey (PNum (py_round (fl r) (FLOATING_FACTOR K))) (collectd_log es s))))"

definition add_rate :: "constants \<Rightarrow> string \<Rightarrow> addr \<Rightarrow> jmxstat \<Rightarrow> error option \<times> jmxstat" where
  "add_rate K pid a s =
     (case add_rate_key K pid a ''packetsReceived'' ''packetsReceivedRate'' s of
        (Some e, s1) \<Rightarrow> (Some e, s1)
      | (None, s1) \<Rightarrow> add_rate_key K pid a ''packetsSent'' ''packetsSentRate'' s1)"

text \<open>
  \<^verbatim>\<open>deepcopy(dict_jmx)\<close> allocates a new dictionary with the same contents. The values
  of a dictionary are immutable here, so copying the association list is a deep copy.
\<close>

definition deepcopy :: "addr \<Rightarrow> jmxstat \<Rightarrow> addr \<times> jmxstat" where
  "deepcopy a s = (fresh s, s\<lparr>heap := (heap s)(fresh s := heap s a), fresh := Suc (fresh s)\<rparr>)"

text \<open>
  The loop \<^verbatim>\<open>for item in [...]: del result[item]\<close> of \<^verbatim>\<open>dispatch_data\<close>; \<^verbatim>\<open>del\<close>
  raises \<^verbatim>\<open>KeyError\<close> for a missing key, and the items deleted before stay deleted.
\<close>

fun del_items :: "string list \<Rightarrow> addr \<Rightarrow> jmxstat \<Rightarrow> error option \<times> jmxstat" where
  "del_items [] b s = (None, s)"
| "del_items (item # items) b s =
     (if map_of (heap s b) item = None then (Some KeyError, s)
      else del_items items b (s\<lparr>heap := (heap s)(b := AList.delete item (heap s b))\<rparr>))"

text \<open>
  Modelled from the spec: \<^verbatim>\<open>utils.dispatch\<close> of the absent module \<^verbatim>\<open>utils\<close>, the
  downstream collector interface that accepts a record. It appends the record, as it is at
  the call, to \<open>dispatched\<close>.
\<close>

definition utils_dispatch :: "addr \<Rightarrow> jmxstat \<Rightarrow> jmxstat" where
  "utils_dispatch b s = s\<lparr>dispatched := dispatched s @ [heap s b]\<rparr>"

definition dispatch_data :: "string \<Rightarrow> addr \<Rightarrow> jmxstat \<Rightarrow> error option \<times> jmxstat" where
  "dispatch_data doc_name b s =
     (case (if doc_name = ''zookeeperStats''
            then del_items [''packetsSent'', ''packetsReceived''] b s
            else (None, s)) of
        (Some e, s1) \<Rightarrow> (Some e, s1)
      | (None, s1) \<Rightarrow>
          (None, utils_dispatch b
                   (collectd_log [InfoSent doc_name, DebugDispatched (heap s1 b)] s1)))"

text \<open>
  \<^verbatim>\<open>add_rate_dispatch(pid, doc, dict_jmx)\<close>, with \<open>a\<close> the address of \<^verbatim>\<open>dict_jmx\<close>.
  Its first statement, the \<^verbatim>\<open>if pid in self.prev_data: ... else: ...\<close>, is
  \<open>attach_rates\<close>. Then the reference \<open>a\<close> itself is stored in \<open>prev_data\<close>,
  and the copy goes to \<^verbatim>\<open>dispatch_data\<close>.
\<close>

definition attach_rates ::
  "constants \<Rightarrow> string \<Rightarrow> addr \<Rightarrow> jmxstat \<Rightarrow> error option \<times> jmxstat" where
  "attach_rates K pid a s =
     (if prev_data s pid \<noteq> None then add_rate K pid a s
      else (None, add_default_rate_value a s))"

definition add_rate_dispatch ::
  "constants \<Rightarrow> string \<Rightarrow> string \<Rightarrow> addr \<Rightarrow> jmxstat \<Rightarrow> error option \<times> jmxstat" where
  "add_rate_dispatch K pid doc a s =
     (case attach_rates K pid a s of
        (Some e, s1) \<Rightarrow> (Some e, s1)
      | (None, s1) \<Rightarrow>
          (let s2 = s1\<lparr>prev_data := (prev_data s1)(pid \<mapsto> a)\<rparr>;
               (b, s3) = deepcopy a s2
           in dispatch_data doc b s3))"

section \<open>Concrete inputs and specification predicates\<close>

text \<open>The records that reached \<^verbatim>\<open>utils.dispatch\<close> between the states \<open>s\<close> and \<open>s'\<close>.\<close>

definition new_dispatched :: "jmxstat \<Rightarrow> jmxstat \<Rightarrow> dict list" where
  "new_dispatched s s' = drop (length (dispatched s)) (dispatched s')"

text \<open>
  Inputs for the closed instances below: a choice of the two constants, the two samples of
  the spec's end-to-end scenario (process 111, interval 60), a state before the first
  cycle with the first sample at address 0, a state before the second cycle with the
  second sample at address 2, and a rate-bearing record without the packet counters (what
  \<^verbatim>\<open>add_zookeeper_parameters\<close> leaves when the server bean answers with a status other
  than 200 and the data-tree bean with 200).
\<close>

definition K0 :: constants where
  "K0 = \<lparr>TIMESTAMP = ''timestamp'', FLOATING_FACTOR = 2\<rparr>"

definition sample1 :: dict where
  "sample1 = [(''packetsReceived'', PNum 100), (''packetsSent'', PNum 50), (''timestamp'', PNum 1000)]"

definition sample2 :: dict where
  "sample2 = [(''packetsReceived'', PNum 160), (''packetsSent'', PNum 80), (''timestamp'', PNum 1060)]"

definition st0 :: jmxstat where
  "st0 = \<lparr>interval = 60, prev_data = Map.empty, heap = (\<lambda>_. [])(0 := sample1), fresh = 1,
          dispatched = [], logged = [], gets = 0\<rparr>"


definition st1 :: jmxstat where
  "st1 = \<lparr>interval = 60, prev_data = [''111'' \<mapsto> 0],
          heap = (\<lambda>_. [])(0 := sample1, 2 := sample2), fresh = 3,
          dispatched = [], logged = [], gets = 0\<rparr>"

definition sample_no_counter :: dict where
  "sample_no_counter = [(''nodeCount'', PNum 4), (''timestamp'', PNum 1060)]"

section \<open>Collection orchestrator\<close>

text \<open>Truth value of a Python value, as \<^verbatim>\<open>if x:\<close> and \<^verbatim>\<open>x or y\<close> test it.\<close>

fun truthy :: "pyval \<Rightarrow> bool" where
  "truthy PNone = False"
| "truthy (PBool b) = b"
| "truthy (PNum x) = (x \<noteq> 0)"
| "truthy (PStr s) = (s \<noteq> [])"
| "truthy (PList xs) = (xs \<noteq> [])"
| "truthy (PDict kvs) = (kvs \<noteq> [])"

text \<open>\<^verbatim>\<open>xs[i]\<close> for an index \<open>i \<ge> 0\<close>: \<^verbatim>\<open>IndexError\<close> out of range.\<close>

definition index :: "'a list \<Rightarrow> nat \<Rightarrow> error + 'a" where
  "index xs i = (if i < length xs then Inr (xs ! i) else Inl IndexError)"

text \<open>
  \<^verbatim>\<open>s.splitlines()\<close> on an 8-bit string: a line ends at \<^verbatim>\<open>\n\<close>, \<^verbatim>\<open>\r\<close> or
  \<^verbatim>\<open>\r\n\<close>, and there is no empty last line. \<open>acc\<close> is the line read so far.
\<close>

fun splitlines_from :: "string \<Rightarrow> string \<Rightarrow> string list" where
  "splitlines_from acc [] = (if acc = [] then [] else [acc])"
| "splitlines_from acc (c # cs) =
     (if c = CHR 0x0A then acc # splitlines_from [] cs
      else if c = CHR 0x0D then
        (case cs of
           [] \<Rightarrow> [acc]
         | d # ds \<Rightarrow>
             if d = CHR 0x0A then acc # splitlines_from [] ds
             else acc # splitlines_from [] (d # ds))
      else splitlines_from (acc @ [c]) cs)"

definition splitlines :: "string \<Rightarrow> string list" where
  "splitlines s = splitlines_from [] s"

text \<open>\<^verbatim>\<open>s.split(sep)\<close> for a separator of one character: empty fields are kept.\<close>

fun split_from :: "char \<Rightarrow> string \<Rightarrow> string \<Rightarrow> string list" where
  "split_from sep acc [] = [acc]"
| "split_from sep acc (c # cs) =
     (if c = sep then acc # split_from sep [] cs else split_from sep (acc @ [c]) cs)"

definition split :: "string \<Rightarrow> char \<Rightarrow> string list" where
  "split s sep = split_from sep [] s"

text \<open>\<^verbatim>\<open>re.findall('\d+', s)\<close>: the maximal runs of the digits 0 to 9, left to right.\<close>

definition is_digit :: "char \<Rightarrow> bool" where
  "is_digit c = (c \<in> set ''0123456789'')"

fun digits_from :: "string \<Rightarrow> string \<Rightarrow> string list" where
  "digits_from acc [] = (if acc = [] then [] else [acc])"
| "digits_from acc (c # cs) =
     (if is_digit c then digits_from (acc @ [c]) cs
      else if acc = [] then digits_from [] cs
      else acc # digits_from [] cs)"

definition findall_digits :: "string \<Rightarrow> string list" where
  "findall_digits s = digits_from [] s"

text \<open>
  The operating system as the orchestrator sees it. \<open>jolokia_cmd cmd pid port\<close> is what
  \<^verbatim>\<open>run_jolokia_cmd\<close> returns: the captured output, the captured error output and the
  exit status of the agent's command line. \<open>free_port pid\<close> is the port that
  \<^verbatim>\<open>get_free_port\<close> returns when it is called for \<open>pid\<close>.
\<close>

record env =
  jolokia_cmd :: "string \<Rightarrow> string \<Rightarrow> nat option \<Rightarrow> string \<times> string \<times> int"
  free_port :: "string \<Rightarrow> nat"

text \<open>
  \<^verbatim>\<open>get_pid_port(pid)\<close>: the port as the string parsed from the status output, the
  port as the number that was allocated, or \<^verbatim>\<open>False\<close>.
\<close>

definition get_pid_port :: "env \<Rightarrow> string \<Rightarrow> jmxstat \<Rightarrow> (error + pyval) \<times> jmxstat" where
  "get_pid_port E pid s =
     (case jolokia_cmd E ''status'' pid None of
        (status, err, ret) \<Rightarrow>
          if err \<noteq> [] \<or> ret \<noteq> 0 then
            (let port = free_port E pid
             in case jolokia_cmd E ''start'' pid (Some port) of
                  (status', err', ret') \<Rightarrow>
                    if err' \<noteq> [] \<or> ret' \<noteq> 0
                    then (Inr (PBool False), collectd_log [ErrStartFailed pid] s)
                    else (Inr (PNum (of_nat port)), collectd_log [InfoStarted pid] s))
          else
            (case index (splitlines status) 1 of
               Inl e \<Rightarrow> (Inl e, s)
             | Inr joloip \<Rightarrow>
                 (case index (split joloip CHR '':'') 2 of
                    Inl e \<Rightarrow> (Inl e, s)
                  | Inr field \<Rightarrow>
                      (case index (findall_digits field) 0 of
                         Inl e \<Rightarrow> (Inl e, s)
                       | Inr port \<Rightarrow> (Inr (PStr port), collectd_log [DebugRunning pid] s)))))"

text \<open>
  The first loop of \<^verbatim>\<open>run_pid_process\<close>: a worker is started for every process id
  whose port is true. The result lists the process ids of the workers (\<^verbatim>\<open>procs\<close>).
  The workers themselves run concurrently and are not part of this function; the second
  loop joins them.
\<close>

fun run_pid_process :: "env \<Rightarrow> string list \<Rightarrow> jmxstat \<Rightarrow> (error + string list) \<times> jmxstat" where
  "run_pid_process E [] s = (Inr [], s)"
| "run_pid_process E (pid # pids) s =
     (case get_pid_port E pid s of
        (Inl e, s1) \<Rightarrow> (Inl e, s1)
      | (Inr port, s1) \<Rightarrow>
          (case run_pid_process E pids s1 of
             (Inl e, s2) \<Rightarrow> (Inl e, s2)
           | (Inr procs, s2) \<Rightarrow> (Inr (if truthy port then pid # procs else procs), s2)))"

text \<open>
  The result channel after the join holds the tuples \<^verbatim>\<open>(pid, doc, dict_jmx)\<close> that the
  workers have put, oldest first. \<^verbatim>\<open>output.get_nowait()\<close> takes the oldest tuple, whose
  dictionary arrives as a new object, or raises \<^verbatim>\<open>Queue.Empty\<close> (\<open>None\<close> here).
\<close>

type_synonym qtuple = "string \<times> string \<times> dict"

definition get_nowait ::
  "qtuple list \<Rightarrow> jmxstat \<Rightarrow> (string \<times> string \<times> addr) option \<times> qtuple list \<times> jmxstat" where
  "get_nowait q s =
     (case q of
        [] \<Rightarrow> (None, [], s\<lparr>gets := Suc (gets s)\<rparr>)
      | (pid, doc_name, doc_result) # q' \<Rightarrow>
          (Some (pid, doc_name, fresh s), q',
           s\<lparr>heap := (heap s)(fresh s := doc_result), fresh := Suc (fresh s),
             gets := Suc (gets s)\<rparr>))"

definition ZOOK_DOCS :: "string list" where
  "ZOOK_DOCS = [''jmxStats'', ''zookeeperStats'']"

text \<open>
  The body of the inner loop of \<^verbatim>\<open>collect_jmx_data\<close>: one pull, then either the log line
  for an empty channel or the dispatch of the tuple. Only \<^verbatim>\<open>Queue.Empty\<close> is caught.
\<close>

definition drain_step ::
  "constants \<Rightarrow> qtuple list \<Rightarrow> jmxstat \<Rightarrow> error option \<times> qtuple list \<times> jmxstat" where
  "drain_step K q s =
     (case get_nowait q s of
        (None, q', s1) \<Rightarrow> (None, q', collectd_log [ErrLostResult] s1)
      | (Some (pid, doc_name, a), q', s1) \<Rightarrow>
          (case (if doc_name = ''zookeeperStats'' then add_rate_dispatch K pid doc_name a s1
                 else dispatch_data doc_name a s1) of
             (exc, s2) \<Rightarrow> (exc, q', s2)))"

text \<open>\<^verbatim>\<open>for doc in ZOOK_DOCS: ...\<close>; an exception leaves the loop.\<close>

fun drain_docs ::
  "constants \<Rightarrow> string list \<Rightarrow> qtuple list \<Rightarrow> jmxstat \<Rightarrow> error option \<times> qtuple list \<times> jmxstat" where
  "drain_docs K [] q s = (None, q, s)"
| "drain_docs K (doc # docs) q s =
     (case drain_step K q s of
        (Some e, q', s') \<Rightarrow> (Some e, q', s')
      | (None, q', s') \<Rightarrow> drain_docs K docs q' s')"

text \<open>\<^verbatim>\<open>for _ in procs: for doc in ZOOK_DOCS: ...\<close>\<close>

fun drain_procs ::
  "constants \<Rightarrow> string list \<Rightarrow> qtuple list \<Rightarrow> jmxstat \<Rightarrow> error option \<times> qtuple list \<times> jmxstat" where
  "drain_procs K [] q s = (None, q, s)"
| "drain_procs K (p # procs) q s =
     (case drain_docs K ZOOK_DOCS q s of
        (Some e, q', s') \<Rightarrow> (Some e, q', s')
      | (None, q', s') \<Rightarrow> drain_procs K procs q' s')"

text \<open>
  \<^verbatim>\<open>collect_jmx_data\<close>, the read callback. \<open>euid\<close> is \<^verbatim>\<open>os.geteuid()\<close>,
  \<open>list_pid\<close> the result of \<^verbatim>\<open>get_pid\<close> (\<open>None\<close> for \<^verbatim>\<open>False\<close>), and
  \<open>workers procs\<close> the content of the channel once the workers \<open>procs\<close> are joined.
  The result is the exception that leaves the callback, if any.
\<close>

definition collect_jmx_data ::
  "constants \<Rightarrow> env \<Rightarrow> nat \<Rightarrow> string list option \<Rightarrow> (string list \<Rightarrow> qtuple list) \<Rightarrow> jmxstat
     \<Rightarrow> error option \<times> jmxstat" where
  "collect_jmx_data K E euid list_pid workers s =
     (if euid \<noteq> 0 then (None, collectd_log [ErrNotRoot] s)
      else
        (case list_pid of
           None \<Rightarrow> (None, collectd_log [ErrNoProcess] s)
         | Some [] \<Rightarrow> (None, collectd_log [ErrNoProcess] s)
         | Some (pid # pids) \<Rightarrow>
             (case run_pid_process E (pid # pids) s of
                (Inl e, s1) \<Rightarrow> (Some e, s1)
              | (Inr procs, s1) \<Rightarrow>
                  (case drain_procs K procs (workers procs) s1 of
                     (exc, q', s2) \<Rightarrow> (exc, s2)))))"

text \<open>The number of lost-result lines in the log.\<close>

definition lost :: "jmxstat \<Rightarrow> nat" where
  "lost s = length (filter (\<lambda>e. e = ErrLostResult) (logged s))"

text \<open>
  A cycle of two workers whose channel holds all four tuples; the rate-bearing record of
  process 111 is without the packet counters.
\<close>

definition jmx_record :: dict where
  "jmx_record = [(''threads'', PNum 12), (''timestamp'', PNum 1060)]"

definition queue_bad :: "qtuple list" where
  "queue_bad =
     [(''111'', ''jmxStats'', jmx_record), (''111'', ''zookeeperStats'', sample_no_counter),
      (''222'', ''jmxStats'', jmx_record), (''222'', ''zookeeperStats'', sample2)]"

text \<open>The spec's scenario of a lost result: two workers, three tuples.\<close>

definition queue_three :: "qtuple list" where
  "queue_three =
     [(''111'', ''jmxStats'', jmx_record), (''111'', ''zookeeperStats'', sample1),
      (''222'', ''jmxStats'', jmx_record)]"

definition st_empty :: jmxstat where
  "st_empty = \<lparr>interval = 60, prev_data = Map.empty, heap = (\<lambda>_. []), fresh = 0,
          dispatched = [], logged = [], gets = 0\<rparr>"

text \<open>
  Two agents' command lines: one whose status output has the two lines of a running agent,
  and one whose status output is a single line (exit status 0, nothing on the error
  output).
\<close>

definition env_running :: env where
  "env_running =
     \<lparr>jolokia_cmd = (\<lambda>cmd pid port.
        (''Jolokia started for PID '' @ pid @ [CHR 0x0A] @ ''http://127.0.0.1:8778/jolokia/''
           @ [CHR 0x0A], [], 0)),
      free_port = (\<lambda>pid. 40000)\<rparr>"

definition env_one_line :: env where
  "env_one_line =
     \<lparr>jolokia_cmd = (\<lambda>cmd pid port. (''Jolokia started for PID '' @ pid @ [CHR 0x0A], [], 0)),
      free_port = (\<lambda>pid. 40000)\<rparr>"

section \<open>Metric extractor\<close>

text \<open>Sequencing of computations that may raise: the first exception ends the run.\<close>

definition rbind :: "error + 'a \<Rightarrow> ('a \<Rightarrow> error + 'b) \<Rightarrow> error + 'b" where
  "rbind m f = (case m of Inl e \<Rightarrow> Inl e | Inr x \<Rightarrow> f x)"

text \<open>
  \<^verbatim>\<open>v[k]\<close> with a string \<open>k\<close>: \<^verbatim>\<open>KeyError\<close> from a dictionary without the key,
  \<^verbatim>\<open>TypeError\<close> from every JSON value that is not a dictionary. \<open>path v ks\<close> is
  \<^verbatim>\<open>v[k1][k2]...\<close>.
\<close>

fun subscript :: "pyval \<Rightarrow> string \<Rightarrow> error + pyval" where
  "subscript (PDict kvs) k = getitem kvs k"
| "subscript _ k = Inl TypeError"

fun path :: "pyval \<Rightarrow> string list \<Rightarrow> error + pyval" where
  "path v [] = Inr v"
| "path v (k # ks) = rbind (subscript v k) (\<lambda>w. path w ks)"

text \<open>\<^verbatim>\<open>v == n\<close> for a number \<open>n\<close>: true for the numbers equal to \<open>n\<close> only.\<close>

definition eq_num :: "pyval \<Rightarrow> rat \<Rightarrow> bool" where
  "eq_num v n = (as_num v = Some n)"

text \<open>
  The unit conversions, each rounded to 2 decimals: \<^verbatim>\<open>round(v / 1024.0 / 1024.0, 2)\<close>,
  \<^verbatim>\<open>round(v * 0.001, 2)\<close> and \<^verbatim>\<open>round(v / 1000000000.0, 2)\<close>. The arithmetic raises
  \<^verbatim>\<open>TypeError\<close> on a value that is not a number. Every division and multiplication
  is one of floats and rounds its result; the literal \<^verbatim>\<open>0.001\<close> is the float nearest
  to \<open>1 / 1000\<close>, while 1024 and 1000000000 are floats as they are.
\<close>

definition megabytes :: "pyval \<Rightarrow> error + pyval" where
  "megabytes v =
     (case as_num v of None \<Rightarrow> Inl TypeError
      | Some x \<Rightarrow> rbind (to_float x) (\<lambda>f. Inr (PNum (py_round (fl (fl (f / 1024) / 1024)) 2))))"

definition millis :: "pyval \<Rightarrow> error + pyval" where
  "millis v =
     (case as_num v of None \<Rightarrow> Inl TypeError
      | Some x \<Rightarrow> rbind (to_float x) (\<lambda>f. Inr (PNum (py_round (fl (f * fl (1 / 1000))) 2))))"

definition nanos :: "pyval \<Rightarrow> error + pyval" where
  "nanos v =
     (case as_num v of None \<Rightarrow> Inl TypeError
      | Some x \<Rightarrow> rbind (to_float x) (\<lambda>f. Inr (PNum (py_round (fl (f / 1000000000)) 2))))"

text \<open>
  A statement works on \<^verbatim>\<open>dict_jmx\<close>. \<open>assign k e\<close> is \<^verbatim>\<open>dict_jmx[k] = e\<close> for an
  expression \<open>e\<close> that may raise; \<open>seq\<close> runs statements in order.
\<close>

type_synonym stmt = "dict \<Rightarrow> error + dict"

definition assign :: "string \<Rightarrow> error + pyval \<Rightarrow> stmt" where
  "assign k e d = rbind e (\<lambda>v. Inr (AList.update k v d))"

fun seq :: "stmt list \<Rightarrow> stmt" where
  "seq [] d = Inr d"
| "seq (f # fs) d = rbind (f d) (seq fs)"

text \<open>\<^verbatim>\<open>handle_neg_bytes(value, resultkey, dict_jmx)\<close>.\<close>

definition handle_neg_bytes :: "pyval \<Rightarrow> string \<Rightarrow> stmt" where
  "handle_neg_bytes v resultkey d =
     (if eq_num v (- 1) then Inr (AList.update resultkey v d)
      else rbind (megabytes v) (\<lambda>m. Inr (AList.update resultkey m d)))"

text \<open>The call \<^verbatim>\<open>self.handle_neg_bytes(e, resultkey, dict_jmx)\<close> with its argument \<open>e\<close>.\<close>

definition call_handle_neg_bytes :: "error + pyval \<Rightarrow> string \<Rightarrow> stmt" where
  "call_handle_neg_bytes e resultkey d = rbind e (\<lambda>v. handle_neg_bytes v resultkey d)"

text \<open>
  The Jolokia client: \<^verbatim>\<open>jolokiaclient.request(type='read', mbean=m, attribute=a)\<close> is
  \<open>Read m a\<close> and \<^verbatim>\<open>request(type='exec', mbean=m, operation=p)\<close> is \<open>Exec m p\<close>. The
  agent's answer is the parsed JSON object, or an exception of the client. During one
  extraction routine the agent answers as a function of the request.
\<close>

datatype request = Read string "string option" | Exec string string

type_synonym jolokia = "request \<Rightarrow> error + pyval"

text \<open>The guard \<^verbatim>\<open>resp['status'] == 200\<close>.\<close>

definition status_200 :: "pyval \<Rightarrow> error + bool" where
  "status_200 resp = rbind (subscript resp ''status'') (\<lambda>st. Inr (eq_num st 200))"

text \<open>\<^verbatim>\<open>add_memory_parameters\<close>.\<close>

definition add_memory_parameters :: "jolokia \<Rightarrow> stmt" where
  "add_memory_parameters client d =
     rbind (client (Read ''java.lang:type=Memory'' None)) (\<lambda>memory_json.
     rbind (status_200 memory_json) (\<lambda>ok.
       if \<not> ok then Inr d
       else
         rbind (path memory_json [''value'', ''HeapMemoryUsage'']) (\<lambda>heap_usage.
         rbind (seq
           [call_handle_neg_bytes (subscript heap_usage ''init'') ''heapMemoryUsageInit'',
            call_handle_neg_bytes (subscript heap_usage ''max'') ''heapMemoryUsageMax'',
            assign ''heapMemoryUsageUsed'' (rbind (subscript heap_usage ''used'') megabytes),
            assign ''heapMemoryUsageCommitted''
              (rbind (subscript heap_usage ''committed'') megabytes)] d) (\<lambda>d1.
         rbind (path memory_json [''value'', ''NonHeapMemoryUsage'']) (\<lambda>non_heap.
         seq
           [call_handle_neg_bytes (subscript non_heap ''init'') ''nonHeapMemoryUsageInit'',
            call_handle_neg_bytes (subscript non_heap ''max'') ''nonHeapMemoryUsageMax'',
            assign ''nonHeapMemoryUsageUsed'' (rbind (subscript non_heap ''used'') megabytes),
            assign ''nonHeapMemoryUsageCommitted''
              (rbind (subscript non_heap ''committed'') megabytes),
            assign ''objectPendingFinalization''
              (path memory_json [''value'', ''ObjectPendingFinalizationCount''])] d1)))))"

text \<open>
  \<^verbatim>\<open>add_threading_parameters\<close>. The two CPU times are converted whenever the flag
  \<^verbatim>\<open>CurrentThreadCpuTimeSupported\<close> is true; there is no test of their sign.
\<close>

definition add_threading_parameters :: "jolokia \<Rightarrow> stmt" where
  "add_threading_parameters client d =
     rbind (client (Read ''java.lang:type=Threading'' None)) (\<lambda>thread_json.
     rbind (status_200 thread_json) (\<lambda>ok.
       if \<not> ok then Inr d
       else
         rbind (seq
           [assign ''threads'' (path thread_json [''value'', ''ThreadCount'']),
            assign ''peakThreads'' (path thread_json [''value'', ''PeakThreadCount'']),
            assign ''daemonThreads'' (path thread_json [''value'', ''DaemonThreadCount'']),
            assign ''totalStartedThreads''
              (path thread_json [''value'', ''TotalStartedThreadCount''])] d) (\<lambda>d1.
         rbind (path thread_json [''value'', ''CurrentThreadCpuTimeSupported'']) (\<lambda>supported.
           if truthy supported then
             seq
               [assign ''currentThreadCpuTime''
                  (rbind (path thread_json [''value'', ''CurrentThreadCpuTime'']) nanos),
                assign ''currentThreadUserTime''
                  (rbind (path thread_json [''value'', ''CurrentThreadUserTime'']) nanos)] d1
           else Inr d1))))"

text \<open>
  The three lines of \<^verbatim>\<open>add_operating_system_parameters\<close> on the process CPU time:
  \<^verbatim>\<open>if pcputime >= 0: pcputime = round(pcputime / 1000000000.0, 2)\<close>, then the store.
\<close>

definition process_cpu_time :: "pyval \<Rightarrow> error + pyval" where
  "process_cpu_time pcputime =
     (case py_le (PNum 0) pcputime of
        Some True \<Rightarrow> nanos pcputime
      | Some False \<Rightarrow> Inr pcputime
      | None \<Rightarrow> Inl NotModelled)"

definition add_operating_system_parameters :: "jolokia \<Rightarrow> stmt" where
  "add_operating_system_parameters client d =
     rbind (client (Read ''java.lang:type=OperatingSystem'' None)) (\<lambda>ops.
     rbind (status_200 ops) (\<lambda>ok.
       if \<not> ok then Inr d
       else
         seq
           [assign ''osArchitecture'' (path ops [''value'', ''Arch'']),
            assign ''availableProcessors'' (path ops [''value'', ''AvailableProcessors'']),
            call_handle_neg_bytes (path ops [''value'', ''CommittedVirtualMemorySize''])
              ''committedVirtualMemorySize'',
            assign ''freePhysicalMemorySize''
              (rbind (path ops [''value'', ''FreePhysicalMemorySize'']) megabytes),
            assign ''freeSwapSpaceSize''
              (rbind (path ops [''value'', ''FreeSwapSpaceSize'']) megabytes),
            assign ''maxFileDescriptors'' (path ops [''value'', ''MaxFileDescriptorCount'']),
            assign ''osName'' (path ops [''value'', ''Name'']),
            assign ''openFileDescriptors'' (path ops [''value'', ''OpenFileDescriptorCount'']),
            assign ''processCpuLoad'' (path ops [''value'', ''ProcessCpuLoad'']),
            assign ''processCpuTime''
              (rbind (path ops [''value'', ''ProcessCpuTime'']) process_cpu_time),
            assign ''totalPhysicalMemorySize''
              (rbind (path ops [''value'', ''TotalPhysicalMemorySize'']) megabytes),
            assign ''totalSwapSpaceSize''
              (rbind (path ops [''value'', ''TotalSwapSpaceSize'']) megabytes),
            assign ''osVersion'' (path ops [''value'', ''Version'']),
            assign ''systemCpuLoad'' (path ops [''value'', ''SystemCpuLoad'']),
            assign ''systemLoadAverage'' (path ops [''value'', ''SystemLoadAverage''])] d))"

text \<open>
  The byte conversion in the spec's words: -1 stays -1, every other input becomes
  \<open>round(input / 1024 / 1024, 2)\<close>, an expression on floats. Likewise
  \<open>round(value / 1e9, 2)\<close> for the nanoseconds.
\<close>

definition spec_bytes :: "rat \<Rightarrow> rat" where
  "spec_bytes x = (if x = - 1 then - 1 else py_round (fl (fl (fl x / 1024) / 1024)) 2)"

definition spec_seconds :: "rat \<Rightarrow> rat" where
  "spec_seconds x = py_round (fl (fl x / 1000000000)) 2"

text \<open>An answer of the agent to the read of the memory bean, with unsupported maxima.\<close>

definition memory_answer :: pyval where
  "memory_answer =
     PDict [(''status'', PNum 200),
       (''value'', PDict
          [(''HeapMemoryUsage'', PDict [(''init'', PNum 268435456), (''max'', PNum (- 1)),
              (''used'', PNum 52428800), (''committed'', PNum 104857600)]),
           (''NonHeapMemoryUsage'', PDict [(''init'', PNum 2555904), (''max'', PNum (- 1)),
              (''used'', PNum 31457280), (''committed'', PNum 33554432)]),
           (''ObjectPendingFinalizationCount'', PNum 0)])]"

text \<open>
  The pattern \<^verbatim>\<open>resp = jolokiaclient.request(...)\<close> followed by
  \<^verbatim>\<open>if resp['status'] == 200: body\<close>; any other status skips the body.
\<close>

definition when_200 :: "jolokia \<Rightarrow> request \<Rightarrow> (pyval \<Rightarrow> stmt) \<Rightarrow> stmt" where
  "when_200 client req body d =
     rbind (client req) (\<lambda>resp.
     rbind (status_200 resp) (\<lambda>ok. if ok then body resp d else Inr d))"

text \<open>A \<^verbatim>\<open>for\<close> loop whose body is a statement.\<close>

fun for_each :: "('a \<Rightarrow> stmt) \<Rightarrow> 'a list \<Rightarrow> stmt" where
  "for_each f [] d = Inr d"
| "for_each f (x # xs) d = rbind (f x d) (for_each f xs)"

definition DEFAULT_GC :: "string list" where
  "DEFAULT_GC = [''G1 Old Generation'', ''G1 Young Generation'']"

definition DEFAULT_MP :: "string list" where
  "DEFAULT_MP = [''G1 Eden Space'', ''G1 Old Gen'', ''G1 Survivor Space'', ''Metaspace'',
     ''Code Cache'', ''Compressed Class Space'']"

text \<open>
  \<^verbatim>\<open>''.join(name.split())\<close>: the name without its whitespace (space, tab, line feed,
  vertical tab, form feed, carriage return).
\<close>

definition no_spaces :: "string \<Rightarrow> string" where
  "no_spaces name =
     filter (\<lambda>c. c \<notin> set [CHR '' '', CHR 0x09, CHR 0x0A, CHR 0x0B, CHR 0x0C, CHR 0x0D]) name"

text \<open>
  The loop of \<^verbatim>\<open>get_memory_pool_names\<close> and \<^verbatim>\<open>get_gc_names\<close> over the items of the
  answer's value: a name of the allow-list is appended to the result, for any other name
  an error is logged. The lines logged before an exception stay logged.
\<close>

fun names_loop ::
  "string list \<Rightarrow> (pyval \<Rightarrow> log_entry) \<Rightarrow> (string \<times> pyval) list
     \<Rightarrow> log_entry list \<times> (error + string list)" where
  "names_loop allowed err [] = ([], Inr [])"
| "names_loop allowed err ((k, v) # kvs) =
     (case subscript v ''Name'' of
        Inl e \<Rightarrow> ([], Inl e)
      | Inr n \<Rightarrow>
          (case names_loop allowed err kvs of
             (es, r) \<Rightarrow>
               (case n of
                  PStr s \<Rightarrow>
                    if s \<in> set allowed then (es, rbind r (\<lambda>names. Inr (s # names)))
                    else (err n # es, r)
                | _ \<Rightarrow> (err n # es, r))))"

text \<open>
  The two functions differ in the bean pattern, the allow-list and the log line only.
  \<^verbatim>\<open>.items()\<close> raises \<^verbatim>\<open>AttributeError\<close> on a value that is not a dictionary.
\<close>

definition get_names ::
  "string \<Rightarrow> string list \<Rightarrow> (pyval \<Rightarrow> log_entry) \<Rightarrow> jolokia
     \<Rightarrow> log_entry list \<times> (error + string list)" where
  "get_names mbean allowed err client =
     (case client (Read mbean (Some ''Name'')) of
        Inl e \<Rightarrow> ([], Inl e)
      | Inr names_json \<Rightarrow>
          (case status_200 names_json of
             Inl e \<Rightarrow> ([], Inl e)
           | Inr False \<Rightarrow> ([], Inr [])
           | Inr True \<Rightarrow>
               (case subscript names_json ''value'' of
                  Inl e \<Rightarrow> ([], Inl e)
                | Inr (PDict kvs) \<Rightarrow> names_loop allowed err kvs
                | Inr _ \<Rightarrow> ([], Inl AttributeError))))"

definition get_memory_pool_names :: "jolokia \<Rightarrow> log_entry list \<times> (error + string list)" where
  "get_memory_pool_names client =
     get_names ''java.lang:type=MemoryPool,*'' DEFAULT_MP ErrNotSupportedMP client"

definition get_gc_names :: "jolokia \<Rightarrow> log_entry list \<times> (error + string list)" where
  "get_gc_names client =
     get_names ''java.lang:type=GarbageCollector,*'' DEFAULT_GC ErrNotSupportedGC client"

text \<open>
  The validity gate of a named bean: the read of \<^verbatim>\<open>Valid\<close> and the test
  \<^verbatim>\<open>valid['status'] == 200 and valid['value'] == True\<close>.
\<close>

definition is_valid :: "jolokia \<Rightarrow> string \<Rightarrow> error + bool" where
  "is_valid client str_mbean =
     rbind (client (Read str_mbean (Some ''Valid''))) (\<lambda>valid.
     rbind (status_200 valid) (\<lambda>ok.
       if ok then rbind (subscript valid ''value'') (\<lambda>v. Inr (eq_num v 1)) else Inr False))"

text \<open>\<^verbatim>\<open>add_jmxstats_parameters\<close>: the three fixed reads and the defaults ...\<close>

definition param_list :: "string list" where
  "param_list =
     [''G1OldGenerationCollectionTime'', ''G1OldGenerationCollectionCount'',
      ''G1YoungGenerationCollectionTime'', ''G1YoungGenerationCollectionCount'',
      ''G1OldGenUsageUsed'', ''G1SurvivorSpaceUsageUsed'', ''MetaspaceUsageUsed'',
      ''CodeCacheUsageUsed'', ''CompressedClassSpaceUsageUsed'', ''G1EdenSpaceUsageUsed'']"

definition jmxstats_fixed :: "jolokia \<Rightarrow> stmt" where
  "jmxstats_fixed client =
     seq
       [when_200 client (Read ''java.lang:type=ClassLoading'' None) (\<lambda>classloading.
          seq [assign ''unloadedClass'' (path classloading [''value'', ''UnloadedClassCount'']),
               assign ''loadedClass'' (path classloading [''value'', ''LoadedClassCount''])]),
        when_200 client (Read ''java.lang:type=Threading'' None) (\<lambda>thread_json.
          assign ''threads'' (path thread_json [''value'', ''ThreadCount''])),
        when_200 client (Read ''java.lang:type=Memory'' None) (\<lambda>memory_json d.
          rbind (path memory_json [''value'', ''HeapMemoryUsage'']) (\<lambda>heap_usage.
          rbind (seq
            [call_handle_neg_bytes (subscript heap_usage ''init'') ''heapMemoryUsageInit'',
             assign ''heapMemoryUsageUsed'' (rbind (subscript heap_usage ''used'') megabytes),
             assign ''heapMemoryUsageCommitted''
               (rbind (subscript heap_usage ''committed'') megabytes)] d) (\<lambda>d1.
          rbind (path memory_json [''value'', ''NonHeapMemoryUsage'']) (\<lambda>non_heap.
          seq
            [call_handle_neg_bytes (subscript non_heap ''init'') ''nonHeapMemoryUsageInit'',
             assign ''nonHeapMemoryUsageUsed'' (rbind (subscript non_heap ''used'') megabytes),
             assign ''nonHeapMemoryUsageCommitted''
               (rbind (subscript non_heap ''committed'') megabytes)] d1)))),
        for_each (\<lambda>param. assign param (Inr (PNum 0))) param_list]"

text \<open>... the body of its loop over the collector names ...\<close>

definition jmxstats_gc :: "jolokia \<Rightarrow> string \<Rightarrow> stmt" where
  "jmxstats_gc client gc_name d =
     (let str_mbean = ''java.lang:type=GarbageCollector,name='' @ gc_name
      in rbind (is_valid client str_mbean) (\<lambda>valid.
           if \<not> valid then Inr d
           else
             when_200 client (Read str_mbean (Some ''CollectionTime,CollectionCount''))
               (\<lambda>gc_values.
                  seq
                    [assign (no_spaces gc_name @ ''CollectionTime'')
                       (rbind (path gc_values [''value'', ''CollectionTime'']) millis),
                     assign (no_spaces gc_name @ ''CollectionCount'')
                       (path gc_values [''value'', ''CollectionCount''])]) d))"

text \<open>... the body of its loop over the pool names ...\<close>

definition jmxstats_mp :: "jolokia \<Rightarrow> string \<Rightarrow> stmt" where
  "jmxstats_mp client pool_name d =
     (let str_mbean = ''java.lang:type=MemoryPool,name='' @ pool_name
      in rbind (is_valid client str_mbean) (\<lambda>valid.
           if \<not> valid then Inr d
           else
             when_200 client (Read str_mbean (Some ''Usage''))
               (\<lambda>mp_values.
                  assign (no_spaces pool_name @ ''UsageUsed'')
                    (rbind (path mp_values [''value'', ''used'']) megabytes)) d))"

text \<open>... and the routine: the log lines of the two name queries and the filled record.\<close>

definition add_jmxstats_parameters :: "jolokia \<Rightarrow> dict \<Rightarrow> log_entry list \<times> (error + dict)" where
  "add_jmxstats_parameters client d =
     (case jmxstats_fixed client d of
        Inl e \<Rightarrow> ([], Inl e)
      | Inr d1 \<Rightarrow>
          (case get_gc_names client of
             (es1, Inl e) \<Rightarrow> (es1, Inl e)
           | (es1, Inr gc_names) \<Rightarrow>
               (case for_each (jmxstats_gc client) gc_names d1 of
                  Inl e \<Rightarrow> (es1, Inl e)
                | Inr d2 \<Rightarrow>
                    (case get_memory_pool_names client of
                       (es2, Inl e) \<Rightarrow> (es1 @ es2, Inl e)
                     | (es2, Inr mp_names) \<Rightarrow>
                         (es1 @ es2, for_each (jmxstats_mp client) mp_names d2)))))"

text \<open>A statement grows the record when it removes no key.\<close>

definition grows :: "stmt \<Rightarrow> bool" where
  "grows f = (\<forall>d d' k. f d = Inr d' \<longrightarrow> map_of d k \<noteq> None \<longrightarrow> map_of d' k \<noteq> None)"

text \<open>
  The detail query of a named bean is answered when the bean passes the validity gate and
  the read of its attributes has status 200.
\<close>

definition detail_ok :: "jolokia \<Rightarrow> string \<Rightarrow> string \<Rightarrow> bool" where
  "detail_ok client str_mbean attr =
     (is_valid client str_mbean = Inr True \<and>
      (case client (Read str_mbean (Some attr)) of
         Inr resp \<Rightarrow> status_200 resp = Inr True
       | Inl e \<Rightarrow> False))"

text \<open>An agent that answers every request with status 404.\<close>

definition client_404 :: jolokia where
  "client_404 req = Inr (PDict [(''status'', PNum 404)])"








text \<open>
  An agent of a JVM with one supported and one unsupported collector and pool: the fixed
  beans answer 404, every named bean is valid and answers its detail query. The second
  agent is the same without the unsupported beans in its wildcard answers.
\<close>

definition gc_names_answer :: pyval where
  "gc_names_answer =
     PDict [(''status'', PNum 200),
       (''value'', PDict
          [(''java.lang:name=G1 Old Generation,type=GarbageCollector'',
              PDict [(''Name'', PStr ''G1 Old Generation'')]),
           (''java.lang:name=PS Scavenge,type=GarbageCollector'',
              PDict [(''Name'', PStr ''PS Scavenge'')])])]"

definition mp_names_answer :: pyval where
  "mp_names_answer =
     PDict [(''status'', PNum 200),
       (''value'', PDict
          [(''java.lang:name=PS Eden Space,type=MemoryPool'',
              PDict [(''Name'', PStr ''PS Eden Space'')]),
           (''java.lang:name=Metaspace,type=MemoryPool'',
              PDict [(''Name'', PStr ''Metaspace'')])])]"

definition client_g1 :: jolokia where
  "client_g1 req =
     (case req of
        Read mbean (Some attr) \<Rightarrow>
          if attr = ''Name'' then
            (if mbean = ''java.lang:type=GarbageCollector,*'' then Inr gc_names_answer
             else Inr mp_names_answer)
          else if attr = ''Valid'' then
            Inr (PDict [(''status'', PNum 200), (''value'', PBool True)])
          else if attr = ''Usage'' then
            Inr (PDict [(''status'', PNum 200),
                   (''value'', PDict [(''init'', PNum 0), (''used'', PNum 10485760),
                      (''committed'', PNum 20971520), (''max'', PNum (- 1))])])
          else
            Inr (PDict [(''status'', PNum 200),
                   (''value'', PDict [(''CollectionTime'', PNum 1500),
                      (''CollectionCount'', PNum 3)])])
      | _ \<Rightarrow> Inr (PDict [(''status'', PNum 404)]))"

definition client_g1_hidden :: jolokia where
  "client_g1_hidden req =
     (if req = Read ''java.lang:type=GarbageCollector,*'' (Some ''Name'') then
        Inr (PDict [(''status'', PNum 200),
               (''value'', PDict
                  [(''java.lang:name=G1 Old Generation,type=GarbageCollector'',
                      PDict [(''Name'', PStr ''G1 Old Generation'')])])])
      else if req = Read ''java.lang:type=MemoryPool,*'' (Some ''Name'') then
        Inr (PDict [(''status'', PNum 200),
               (''value'', PDict
                  [(''java.lang:name=Metaspace,type=MemoryPool'',
                      PDict [(''Name'', PStr ''Metaspace'')])])])
      else client_g1 req)"

text \<open>
  \<^verbatim>\<open>add_memory_pool_parameters\<close>: the body of the loop over the pool names, then the
  routine.
\<close>

definition memory_pool_step :: "jolokia \<Rightarrow> string \<Rightarrow> stmt" where
  "memory_pool_step client pool_name d =
     (let str_mbean = ''java.lang:type=MemoryPool,name='' @ pool_name
      in rbind (is_valid client str_mbean) (\<lambda>valid.
           if \<not> valid then Inr d
           else
             (let pool_name_no_spaces = no_spaces pool_name
              in when_200 client
                   (Read str_mbean (Some
                      ''CollectionUsage,PeakUsage,Type,Usage,CollectionUsageThresholdSupported,UsageThresholdSupported''))
                   (\<lambda>mp_values d.
                      rbind (path mp_values [''value'', ''CollectionUsage'']) (\<lambda>coll_usage.
                      rbind
                        ((if truthy coll_usage then
                            seq
                              [call_handle_neg_bytes (subscript coll_usage ''max'')
                                 (pool_name_no_spaces @ ''CollectionUsageMax''),
                               call_handle_neg_bytes (subscript coll_usage ''init'')
                                 (pool_name_no_spaces @ ''CollectionUsageInit''),
                               assign (pool_name_no_spaces @ ''CollectionUsageUsed'')
                                 (rbind (subscript coll_usage ''used'') megabytes),
                               assign (pool_name_no_spaces @ ''CollectionUsageCommitted'')
                                 (rbind (subscript coll_usage ''committed'') megabytes)]
                          else Inr) d) (\<lambda>d1.
                      rbind (path mp_values [''value'', ''Usage'']) (\<lambda>usage.
                      rbind
                        (seq
                           [call_handle_neg_bytes (subscript usage ''max'')
                              (pool_name_no_spaces @ ''UsageMax''),
                            call_handle_neg_bytes (subscript usage ''init'')
                              (pool_name_no_spaces @ ''UsageInit''),
                            assign (pool_name_no_spaces @ ''UsageUsed'')
                              (rbind (subscript usage ''used'') megabytes),
                            assign (pool_name_no_spaces @ ''UsageCommitted'')
                              (rbind (subscript usage ''committed'') megabytes)] d1) (\<lambda>d2.
                      rbind (path mp_values [''value'', ''PeakUsage'']) (\<lambda>peak_usage.
                      rbind
                        (seq
                           [call_handle_neg_bytes (subscript peak_usage ''max'')
                              (pool_name_no_spaces @ ''PeakUsageMax''),
                            call_handle_neg_bytes (subscript peak_usage ''init'')
                              (pool_name_no_spaces @ ''PeakUsageInit''),
                            assign (pool_name_no_spaces @ ''PeakUsageUsed'')
                              (rbind (subscript peak_usage ''used'') megabytes),
                            assign (pool_name_no_spaces @ ''PeakUsageCommitted'')
                              (rbind (subscript peak_usage ''committed'') megabytes)] d2) (\<lambda>d3.
                      rbind (path mp_values [''value'', ''CollectionUsageThresholdSupported''])
                        (\<lambda>coll_supported.
                      rbind
                        ((if truthy coll_supported then
                            when_200 client
                              (Read str_mbean (Some
                                 ''CollectionUsageThreshold,CollectionUsageThresholdCount,CollectionUsageThresholdExceeded''))
                              (\<lambda>coll_threshold.
                                 seq
                                   [assign (pool_name_no_spaces @ ''CollectionUsageThreshold'')
                                      (rbind (path coll_threshold
                                                [''value'', ''CollectionUsageThreshold''])
                                         megabytes),
                                    assign (pool_name_no_spaces @ ''CollectionUsageThresholdCount'')
                                      (path coll_threshold
                                         [''value'', ''CollectionUsageThreshold'']),
                                    assign
                                      (pool_name_no_spaces @ ''CollectionUsageThresholdExceeded'')
                                      (path coll_threshold
                                         [''value'', ''CollectionUsageThresholdExceeded''])])
                          else Inr) d3) (\<lambda>d4.
                      rbind (path mp_values [''value'', ''UsageThresholdSupported''])
                        (\<lambda>usage_supported.
                        (if truthy usage_supported then
                           when_200 client
                             (Read str_mbean (Some
                                ''UsageThreshold,UsageThresholdCount,UsageThresholdExceeded''))
                             (\<lambda>usage_threshold.
                                seq
                                  [assign (pool_name_no_spaces @ ''UsageThreshold'')
                                     (rbind (path usage_threshold [''value'', ''UsageThreshold''])
                                        megabytes),
                                   assign (pool_name_no_spaces @ ''UsageThresholdCount'')
                                     (path usage_threshold [''value'', ''UsageThreshold'']),
                                   assign (pool_name_no_spaces @ ''UsageThresholdExceeded'')
                                     (path usage_threshold
                                        [''value'', ''UsageThresholdExceeded''])])
                         else Inr) d4)))))))))) d)))"

definition add_memory_pool_parameters ::
  "jolokia \<Rightarrow> dict \<Rightarrow> log_entry list \<times> (error + dict)" where
  "add_memory_pool_parameters client d =
     (case get_memory_pool_names client of
        (es, Inl e) \<Rightarrow> (es, Inl e)
      | (es, Inr mp_names) \<Rightarrow> (es, for_each (memory_pool_step client) mp_names d))"

text \<open>
  \<^verbatim>\<open>add_gc_parameters\<close>: its local function \<^verbatim>\<open>memory_gc_usage\<close> (a loop over the items
  of the usage map of the last collection), the body of the loop over the collector names,
  then the routine.
\<close>

fun memory_gc_usage :: "(string \<times> pyval) list \<Rightarrow> string \<Rightarrow> string \<Rightarrow> stmt" where
  "memory_gc_usage [] key gc_name d = Inr d"
| "memory_gc_usage ((name, vals) # items) key gc_name d =
     rbind
       ((if name \<in> set [''G1 Eden Space'', ''G1 Old Gen''] then
           (let mp_name = no_spaces name
            in seq
                 [call_handle_neg_bytes (subscript vals ''init'')
                    (gc_name @ key @ mp_name @ ''Init''),
                  call_handle_neg_bytes (subscript vals ''max'')
                    (gc_name @ key @ mp_name @ ''Max''),
                  assign (gc_name @ key @ mp_name @ ''Used'')
                    (rbind (subscript vals ''used'') megabytes),
                  assign (gc_name @ key @ mp_name @ ''Committed'')
                    (rbind (subscript vals ''committed'') megabytes)])
         else Inr) d)
       (memory_gc_usage items key gc_name)"

definition call_memory_gc_usage :: "pyval \<Rightarrow> string \<Rightarrow> string \<Rightarrow> stmt" where
  "call_memory_gc_usage mempool_gc key gc_name d =
     (case mempool_gc of
        PDict items \<Rightarrow> memory_gc_usage items key gc_name d
      | _ \<Rightarrow> Inl AttributeError)"

definition gc_step :: "jolokia \<Rightarrow> string \<Rightarrow> stmt" where
  "gc_step client gc_name d =
     (let str_mbean = ''java.lang:type=GarbageCollector,name='' @ gc_name
      in rbind (is_valid client str_mbean) (\<lambda>if_valid.
           if \<not> if_valid then Inr d
           else
             (let gc_name_no_spaces = no_spaces gc_name
              in when_200 client
                   (Read str_mbean (Some ''CollectionTime,CollectionCount,LastGcInfo''))
                   (\<lambda>gc_values d.
                      rbind
                        (seq
                           [assign (gc_name_no_spaces @ ''CollectionTime'')
                              (rbind (path gc_values [''value'', ''CollectionTime'']) millis),
                            assign (gc_name_no_spaces @ ''CollectionCount'')
                              (path gc_values [''value'', ''CollectionCount''])] d) (\<lambda>d1.
                      rbind (path gc_values [''value'', ''LastGcInfo'']) (\<lambda>last_gc_info.
                        if truthy last_gc_info then
                          rbind
                            (seq
                               [assign (gc_name_no_spaces @ ''GcThreadCount'')
                                  (path gc_values [''value'', ''LastGcInfo'', ''GcThreadCount'']),
                                assign (gc_name_no_spaces @ ''StartTime'')
                                  (rbind (path gc_values [''value'', ''LastGcInfo'', ''startTime''])
                                     millis),
                                assign (gc_name_no_spaces @ ''EndTime'')
                                  (rbind (path gc_values [''value'', ''LastGcInfo'', ''endTime''])
                                     millis),
                                assign (gc_name_no_spaces @ ''Duration'')
                                  (rbind (path gc_values [''value'', ''LastGcInfo'', ''duration''])
                                     millis)] d1) (\<lambda>d2.
                          rbind (path gc_values [''value'', ''LastGcInfo'', ''memoryUsageAfterGc''])
                            (\<lambda>mem_aftergc.
                          rbind (call_memory_gc_usage mem_aftergc ''MemUsageAfGc''
                                   gc_name_no_spaces d2) (\<lambda>d3.
                          rbind (path gc_values [''value'', ''LastGcInfo'', ''memoryUsageBeforeGc''])
                            (\<lambda>mem_beforegc.
                          call_memory_gc_usage mem_beforegc ''MemUsageBfGc''
                            gc_name_no_spaces d3))))
                        else Inr d1))) d)))"

definition add_gc_parameters :: "jolokia \<Rightarrow> dict \<Rightarrow> log_entry list \<times> (error + dict)" where
  "add_gc_parameters client d =
     (case get_gc_names client of
        (es, Inl e) \<Rightarrow> (es, Inl e)
      | (es, Inr gc_names) \<Rightarrow> (es, for_each (gc_step client) gc_names d))"

section \<open>Verified properties\<close>

text \<open>Numbers that are binary64 numbers are not changed by the rounding.\<close>

lemma fl_exact:
  "fl 0 = 0" "fl 1 = 1" "fl (- 1) = - 1" "fl (1 / 2) = 1 / 2" "fl (5 / 2) = 5 / 2"
  by code_simp+

lemma del_items_frame:
  "prev_data (snd (del_items ks b s)) = prev_data s \<and>
   dispatched (snd (del_items ks b s)) = dispatched s \<and>
   logged (snd (del_items ks b s)) = logged s \<and>
   fresh (snd (del_items ks b s)) = fresh s \<and>
   gets (snd (del_items ks b s)) = gets s \<and>
   interval (snd (del_items ks b s)) = interval s"
  by (induction ks arbitrary: s) auto

lemma del_items_heap_other:
  "a \<noteq> b \<Longrightarrow> heap (snd (del_items ks b s)) a = heap s a"
  by (induction ks arbitrary: s) auto

lemma del_items_heap_self:
  "fst (del_items ks b s) = None \<Longrightarrow>
   map_of (heap (snd (del_items ks b s)) b) k = (if k \<in> set ks then None else map_of (heap s b) k)"
  by (induction ks arbitrary: s) (auto simp: delete_conv' split: if_splits)

lemma dispatch_data_frame:
  "prev_data (snd (dispatch_data doc b s)) = prev_data s \<and>
   fresh (snd (dispatch_data doc b s)) = fresh s \<and>
   gets (snd (dispatch_data doc b s)) = gets s \<and>
   interval (snd (dispatch_data doc b s)) = interval s"
  using del_items_frame [of "[''packetsSent'', ''packetsReceived'']" b s]
  by (auto simp: dispatch_data_def utils_dispatch_def collectd_log_def split: prod.splits option.splits)

lemma dispatch_data_heap_other:
  "a \<noteq> b \<Longrightarrow> heap (snd (dispatch_data doc b s)) a = heap s a"
  using del_items_heap_other [of a b "[''packetsSent'', ''packetsReceived'']" s]
  by (auto simp: dispatch_data_def utils_dispatch_def collectd_log_def split: prod.splits option.splits)

lemma dispatch_data_dispatched:
  "dispatched (snd (dispatch_data doc b s)) =
     (if fst (dispatch_data doc b s) = None
      then dispatched s @ [heap (snd (dispatch_data doc b s)) b] else dispatched s)"
  using del_items_frame [of "[''packetsSent'', ''packetsReceived'']" b s]
  by (auto simp: dispatch_data_def utils_dispatch_def collectd_log_def split: prod.splits option.splits)

lemma dispatch_data_heap_self:
  "fst (dispatch_data doc b s) = None \<Longrightarrow>
   map_of (heap (snd (dispatch_data doc b s)) b) k =
     (if doc = ''zookeeperStats'' \<and> k \<in> {''packetsSent'', ''packetsReceived''} then None
      else map_of (heap s b) k)"
  using del_items_heap_self [of "[''packetsSent'', ''packetsReceived'']" b s k]
  by (auto simp: dispatch_data_def utils_dispatch_def collectd_log_def split: prod.splits option.splits if_splits)

lemma dispatch_data_ok_iff:
  "fst (dispatch_data doc b s) = None \<longleftrightarrow>
     (doc = ''zookeeperStats'' \<longrightarrow>
        map_of (heap s b) ''packetsSent'' \<noteq> None \<and> map_of (heap s b) ''packetsReceived'' \<noteq> None)"
  by (auto simp: dispatch_data_def delete_conv' split: prod.splits option.splits if_splits)


lemma add_rate_key_frame:
  "prev_data (snd (add_rate_key K pid a key rk s)) = prev_data s \<and>
   dispatched (snd (add_rate_key K pid a key rk s)) = dispatched s \<and>
   fresh (snd (add_rate_key K pid a key rk s)) = fresh s \<and>
   gets (snd (add_rate_key K pid a key rk s)) = gets s \<and>
   interval (snd (add_rate_key K pid a key rk s)) = interval s"
  by (simp add: add_rate_key_def setitem_def collectd_log_def
           split: option.splits prod.splits sum.splits rate.splits)

lemma add_rate_key_heap_other:
  "a' \<noteq> a \<Longrightarrow> heap (snd (add_rate_key K pid a key rk s)) a' = heap s a'"
  by (simp add: add_rate_key_def setitem_def collectd_log_def
           split: option.splits prod.splits sum.splits rate.splits)

lemma add_rate_key_heap_self:
  "k \<noteq> rk \<Longrightarrow> map_of (heap (snd (add_rate_key K pid a key rk s)) a) k = map_of (heap s a) k"
  by (simp add: add_rate_key_def setitem_def collectd_log_def update_conv'
           split: option.splits prod.splits sum.splits rate.splits)

lemma add_default_rate_value_simps:
  "prev_data (add_default_rate_value a s) = prev_data s"
  "dispatched (add_default_rate_value a s) = dispatched s"
  "fresh (add_default_rate_value a s) = fresh s"
  "gets (add_default_rate_value a s) = gets s"
  "a' \<noteq> a \<Longrightarrow> heap (add_default_rate_value a s) a' = heap s a'"
  "map_of (heap (add_default_rate_value a s) a) k =
     (if k = ''packetsSentRate'' \<or> k = ''packetsReceivedRate'' then Some (PNum 0)
      else map_of (heap s a) k)"
  by (simp_all add: add_default_rate_value_def setitem_def update_conv')

lemma attach_rates_frame:
  "prev_data (snd (attach_rates K pid a s)) = prev_data s \<and>
   dispatched (snd (attach_rates K pid a s)) = dispatched s \<and>
   fresh (snd (attach_rates K pid a s)) = fresh s \<and>
   gets (snd (attach_rates K pid a s)) = gets s"
  using add_rate_key_frame [of K pid a "''packetsReceived''" "''packetsReceivedRate''" s]
        add_rate_key_frame [of K pid a "''packetsSent''" "''packetsSentRate''"
           "snd (add_rate_key K pid a ''packetsReceived'' ''packetsReceivedRate'' s)"]
  by (auto simp: attach_rates_def add_rate_def add_default_rate_value_simps
           split: prod.splits option.splits)

lemma attach_rates_heap_other:
  "a' \<noteq> a \<Longrightarrow> heap (snd (attach_rates K pid a s)) a' = heap s a'"
  using add_rate_key_heap_other [of a' a K pid "''packetsReceived''" "''packetsReceivedRate''" s]
        add_rate_key_heap_other [of a' a K pid "''packetsSent''" "''packetsSentRate''"
           "snd (add_rate_key K pid a ''packetsReceived'' ''packetsReceivedRate'' s)"]
  by (auto simp: attach_rates_def add_rate_def add_default_rate_value_simps
           split: prod.splits option.splits)

lemma attach_rates_heap_self:
  "k \<noteq> ''packetsReceivedRate'' \<Longrightarrow> k \<noteq> ''packetsSentRate'' \<Longrightarrow>
   map_of (heap (snd (attach_rates K pid a s)) a) k = map_of (heap s a) k"
  using add_rate_key_heap_self [of k "''packetsReceivedRate''" K pid a "''packetsReceived''" s]
        add_rate_key_heap_self [of k "''packetsSentRate''" K pid a "''packetsSent''"
           "snd (add_rate_key K pid a ''packetsReceived'' ''packetsReceivedRate'' s)"]
  by (auto simp: attach_rates_def add_rate_def add_default_rate_value_simps
           split: prod.splits option.splits)

text \<open>The state in which \<^verbatim>\<open>dispatch_data\<close> is called by \<^verbatim>\<open>add_rate_dispatch\<close>.\<close>

lemma add_rate_dispatch_unfold:
  "attach_rates K pid a s = (None, s1) \<Longrightarrow>
   add_rate_dispatch K pid doc a s =
     dispatch_data doc (fresh s1)
       (s1\<lparr>prev_data := (prev_data s1)(pid \<mapsto> a),
            heap := (heap s1)(fresh s1 := heap s1 a), fresh := Suc (fresh s1)\<rparr>)"
  by (simp add: add_rate_dispatch_def deepcopy_def)


lemma add_rate_dispatch_stored:
  assumes "a < fresh s" and "attach_rates K pid a s = (None, s1)"
  shows "prev_data (snd (add_rate_dispatch K pid doc a s)) pid = Some a"
    and "heap (snd (add_rate_dispatch K pid doc a s)) a = heap s1 a"
    and "fresh s1 = fresh s"
    and "dispatched s1 = dispatched s"
proof -
  have f: "fresh s1 = fresh s" and d: "dispatched s1 = dispatched s"
    using attach_rates_frame [of K pid a s] assms(2) by simp_all
  let ?s3 = "s1\<lparr>prev_data := (prev_data s1)(pid \<mapsto> a),
                heap := (heap s1)(fresh s1 := heap s1 a), fresh := Suc (fresh s1)\<rparr>"
  have u: "add_rate_dispatch K pid doc a s = dispatch_data doc (fresh s1) ?s3"
    using assms(2) by (rule add_rate_dispatch_unfold)
  show "prev_data (snd (add_rate_dispatch K pid doc a s)) pid = Some a"
    using dispatch_data_frame [of doc "fresh s1" ?s3] by (simp add: u)
  have "a \<noteq> fresh s1" using assms(1) f by simp
  then show "heap (snd (add_rate_dispatch K pid doc a s)) a = heap s1 a"
    using dispatch_data_heap_other [of a "fresh s1" doc ?s3] by (simp add: u)
  show "fresh s1 = fresh s" by (rule f)
  show "dispatched s1 = dispatched s" by (rule d)
qed

lemma add_rate_dispatch_sent:
  assumes "a < fresh s" and "attach_rates K pid a s = (None, s1)"
    and "fst (add_rate_dispatch K pid doc a s) = None"
  shows "new_dispatched s (snd (add_rate_dispatch K pid doc a s)) =
           [heap (snd (add_rate_dispatch K pid doc a s)) (fresh s)]"
    and "map_of (heap (snd (add_rate_dispatch K pid doc a s)) (fresh s)) k =
           (if doc = ''zookeeperStats'' \<and> k \<in> {''packetsSent'', ''packetsReceived''} then None
            else map_of (heap s1 a) k)"
proof -
  have f: "fresh s1 = fresh s" and d: "dispatched s1 = dispatched s"
    using attach_rates_frame [of K pid a s] assms(2) by simp_all
  let ?s3 = "s1\<lparr>prev_data := (prev_data s1)(pid \<mapsto> a),
                heap := (heap s1)(fresh s1 := heap s1 a), fresh := Suc (fresh s1)\<rparr>"
  have u: "add_rate_dispatch K pid doc a s = dispatch_data doc (fresh s1) ?s3"
    using assms(2) by (rule add_rate_dispatch_unfold)
  have ok: "fst (dispatch_data doc (fresh s1) ?s3) = None" using assms(3) u by simp
  show "new_dispatched s (snd (add_rate_dispatch K pid doc a s)) =
           [heap (snd (add_rate_dispatch K pid doc a s)) (fresh s)]"
    using dispatch_data_dispatched [of doc "fresh s1" ?s3] ok
    by (simp add: u new_dispatched_def d f)
  show "map_of (heap (snd (add_rate_dispatch K pid doc a s)) (fresh s)) k =
           (if doc = ''zookeeperStats'' \<and> k \<in> {''packetsSent'', ''packetsReceived''} then None
            else map_of (heap s1 a) k)"
  proof -
    have "map_of (heap (snd (add_rate_dispatch K pid doc a s)) (fresh s1)) k =
           (if doc = ''zookeeperStats'' \<and> k \<in> {''packetsSent'', ''packetsReceived''} then None
            else map_of (heap s1 a) k)"
      using dispatch_data_heap_self [OF ok, of k] by (auto simp: u)
    then show ?thesis by (simp only: f)
  qed
qed

lemma add_rate_dispatch_raises:
  assumes "attach_rates K pid a s = (None, s1)"
    and "fst (add_rate_dispatch K pid doc a s) \<noteq> None"
  shows "new_dispatched s (snd (add_rate_dispatch K pid doc a s)) = []"
proof -
  have d: "dispatched s1 = dispatched s"
    using attach_rates_frame [of K pid a s] assms(1) by simp
  let ?s3 = "s1\<lparr>prev_data := (prev_data s1)(pid \<mapsto> a),
                heap := (heap s1)(fresh s1 := heap s1 a), fresh := Suc (fresh s1)\<rparr>"
  have u: "add_rate_dispatch K pid doc a s = dispatch_data doc (fresh s1) ?s3"
    using assms(1) by (rule add_rate_dispatch_unfold)
  show ?thesis
    using dispatch_data_dispatched [of doc "fresh s1" ?s3] assms(2)
    by (simp add: u new_dispatched_def d)
qed

lemma add_rate_dispatch_ok_iff:
  assumes "attach_rates K pid a s = (None, s1)"
  shows "fst (add_rate_dispatch K pid doc a s) = None \<longleftrightarrow>
     (doc = ''zookeeperStats'' \<longrightarrow>
        map_of (heap s1 a) ''packetsSent'' \<noteq> None \<and> map_of (heap s1 a) ''packetsReceived'' \<noteq> None)"
  by (simp add: add_rate_dispatch_unfold [OF assms] dispatch_data_ok_iff)






lemma attach_rates_first:
  "prev_data s pid = None \<Longrightarrow> attach_rates K pid a s = (None, add_default_rate_value a s)"
  by (simp add: attach_rates_def)

lemma add_rate_dispatch_no_store:
  "fst (attach_rates K pid a s) \<noteq> None \<Longrightarrow>
   add_rate_dispatch K pid doc a s = attach_rates K pid a s"
  by (auto simp: add_rate_dispatch_def split: prod.splits option.splits)

text \<open>
  Claim C2. For a process id without an entry in \<open>prev_data\<close>,
  \<^verbatim>\<open>add_rate_dispatch\<close> stores the current sample under the process id, the sample
  carries both rate fields with value 0 and is otherwise unchanged, every record that the
  call dispatches carries both rate fields with value 0, and a call that returns normally
  dispatches exactly one record.
\<close>

theorem first_sample_default_rates:
  assumes "prev_data s pid = None" and "a < fresh s"
  shows "prev_data (snd (add_rate_dispatch K pid doc a s)) pid = Some a
       \<and> map_of (heap (snd (add_rate_dispatch K pid doc a s)) a) ''packetsReceivedRate'' = Some (PNum 0)
       \<and> map_of (heap (snd (add_rate_dispatch K pid doc a s)) a) ''packetsSentRate'' = Some (PNum 0)
       \<and> (\<forall>k. k \<noteq> ''packetsReceivedRate'' \<longrightarrow> k \<noteq> ''packetsSentRate'' \<longrightarrow>
              map_of (heap (snd (add_rate_dispatch K pid doc a s)) a) k = map_of (heap s a) k)
       \<and> (\<forall>r \<in> set (new_dispatched s (snd (add_rate_dispatch K pid doc a s))).
              map_of r ''packetsReceivedRate'' = Some (PNum 0)
            \<and> map_of r ''packetsSentRate'' = Some (PNum 0))
       \<and> (fst (add_rate_dispatch K pid doc a s) = None \<longrightarrow>
              length (new_dispatched s (snd (add_rate_dispatch K pid doc a s))) = 1)"
proof -
  let ?R = "add_rate_dispatch K pid doc a s"
  let ?s1 = "add_default_rate_value a s"
  have at: "attach_rates K pid a s = (None, ?s1)"
    using assms(1) by (rule attach_rates_first)
  note st = add_rate_dispatch_stored [OF assms(2) at]
  have h: "heap (snd ?R) a = heap ?s1 a" by (rule st(2))
  have sent: "new_dispatched s (snd ?R) = [heap (snd ?R) (fresh s)]"
      "\<And>k. map_of (heap (snd ?R) (fresh s)) k =
           (if doc = ''zookeeperStats'' \<and> k \<in> {''packetsSent'', ''packetsReceived''} then None
            else map_of (heap ?s1 a) k)"
    if "fst ?R = None"
    using add_rate_dispatch_sent [OF assms(2) at that] by simp_all
  have none: "new_dispatched s (snd ?R) = []" if "fst ?R \<noteq> None"
    using add_rate_dispatch_raises [OF at that] .
  have c5: "\<forall>r \<in> set (new_dispatched s (snd ?R)).
              map_of r ''packetsReceivedRate'' = Some (PNum 0)
            \<and> map_of r ''packetsSentRate'' = Some (PNum 0)"
  proof (cases "fst ?R = None")
    case True
    show ?thesis
      by (simp add: sent(1) [OF True] sent(2) [OF True] add_default_rate_value_simps)
  next
    case False
    then show ?thesis by (simp add: none)
  qed
  have c6: "fst ?R = None \<longrightarrow> length (new_dispatched s (snd ?R)) = 1"
    using sent(1) by simp
  show ?thesis
    using st(1) c5 c6 by (simp add: h add_default_rate_value_simps)
qed

theorem first_sample_default_rates_witness:
  "prev_data st0 ''111'' = None \<and> 0 < fresh st0
   \<and> prev_data (snd (add_rate_dispatch K0 ''111'' ''zookeeperStats'' 0 st0)) ''111'' = Some 0
   \<and> heap (snd (add_rate_dispatch K0 ''111'' ''zookeeperStats'' 0 st0)) 0 =
       [(''packetsReceived'', PNum 100), (''packetsSent'', PNum 50), (''timestamp'', PNum 1000),
        (''packetsReceivedRate'', PNum 0), (''packetsSentRate'', PNum 0)]
   \<and> fst (add_rate_dispatch K0 ''111'' ''zookeeperStats'' 0 st0) = None
   \<and> new_dispatched st0 (snd (add_rate_dispatch K0 ''111'' ''zookeeperStats'' 0 st0)) =
       [[(''timestamp'', PNum 1000), (''packetsReceivedRate'', PNum 0), (''packetsSentRate'', PNum 0)]]"
  using first_sample_default_rates [of st0 "''111''" 0 K0 "''zookeeperStats''"]
  by (simp add: st0_def sample1_def add_rate_dispatch_def attach_rates_def
        add_default_rate_value_def setitem_def deepcopy_def dispatch_data_def
        utils_dispatch_def collectd_log_def new_dispatched_def)

text \<open>
  Claim C3, amended. Whenever \<^verbatim>\<open>add_rate_dispatch\<close> gets past the attachment of the
  rates, the entry of the process id in \<open>prev_data\<close> is the reference \<open>a\<close> to the
  current sample itself, so the stored sample is the current sample as the rate attachment
  left it: a rate field is in it where the attachment wrote one, and every other field is
  as it was before the call. The record handed to \<^verbatim>\<open>dispatch_data\<close> is a copy at
  another address: the stored sample is the same before and after the dispatch, while the
  dispatched record is the copy with the two packet counters stripped in the rate-bearing
  category.
\<close>

theorem stored_sample_amended:
  assumes "a < fresh s" and "attach_rates K pid a s = (None, s1)"
  shows "prev_data (snd (add_rate_dispatch K pid doc a s)) pid = Some a
       \<and> heap (snd (add_rate_dispatch K pid doc a s)) a = heap s1 a
       \<and> (\<forall>k. k \<noteq> ''packetsReceivedRate'' \<longrightarrow> k \<noteq> ''packetsSentRate'' \<longrightarrow>
              map_of (heap (snd (add_rate_dispatch K pid doc a s)) a) k = map_of (heap s a) k)
       \<and> fresh s \<noteq> a
       \<and> (fst (add_rate_dispatch K pid doc a s) = None \<longrightarrow>
              new_dispatched s (snd (add_rate_dispatch K pid doc a s)) =
                [heap (snd (add_rate_dispatch K pid doc a s)) (fresh s)]
            \<and> (\<forall>k. map_of (heap (snd (add_rate_dispatch K pid doc a s)) (fresh s)) k =
                  (if doc = ''zookeeperStats'' \<and> k \<in> {''packetsSent'', ''packetsReceived''}
                   then None else map_of (heap s1 a) k)))"
proof -
  let ?R = "add_rate_dispatch K pid doc a s"
  note st = add_rate_dispatch_stored [OF assms]
  have s1: "s1 = snd (attach_rates K pid a s)" using assms(2) by simp
  have keep: "map_of (heap (snd ?R) a) k = map_of (heap s a) k"
    if "k \<noteq> ''packetsReceivedRate''" "k \<noteq> ''packetsSentRate''" for k
    using attach_rates_heap_self [OF that, of K pid a s] by (simp add: st(2) s1)
  have sent: "new_dispatched s (snd ?R) = [heap (snd ?R) (fresh s)]
            \<and> (\<forall>k. map_of (heap (snd ?R) (fresh s)) k =
                  (if doc = ''zookeeperStats'' \<and> k \<in> {''packetsSent'', ''packetsReceived''}
                   then None else map_of (heap s1 a) k))"
    if "fst ?R = None"
    using add_rate_dispatch_sent [OF assms that] by blast
  have "fresh s \<noteq> a" using assms(1) by simp
  with st(1) st(2) keep sent show ?thesis by blast
qed

theorem stored_sample_amended_witness:
  "2 < fresh st1
   \<and> fst (attach_rates K0 ''111'' 2 st1) = None
   \<and> fst (add_rate_dispatch K0 ''111'' ''zookeeperStats'' 2 st1) = None
   \<and> prev_data (snd (add_rate_dispatch K0 ''111'' ''zookeeperStats'' 2 st1)) ''111'' = Some 2
   \<and> heap (snd (add_rate_dispatch K0 ''111'' ''zookeeperStats'' 2 st1)) 2 =
       [(''packetsReceived'', PNum 160), (''packetsSent'', PNum 80), (''timestamp'', PNum 1060),
        (''packetsReceivedRate'', PNum 1), (''packetsSentRate'', PNum (1 / 2))]
   \<and> new_dispatched st1 (snd (add_rate_dispatch K0 ''111'' ''zookeeperStats'' 2 st1)) =
       [[(''timestamp'', PNum 1060), (''packetsReceivedRate'', PNum 1),
         (''packetsSentRate'', PNum (1 / 2))]]"
  using stored_sample_amended [of 2 st1 K0 "''111''" "snd (attach_rates K0 ''111'' 2 st1)"
          "''zookeeperStats''"]
  by (simp add: st1_def sample1_def sample2_def K0_def add_rate_dispatch_def attach_rates_def
        add_rate_def add_rate_key_def get_rate_def getitem_def py_sub_def fl_exact py_round_def
        floor_eq_iff
        setitem_def deepcopy_def dispatch_data_def
        utils_dispatch_def collectd_log_def new_dispatched_def)

text \<open>
  Claim C3 as stated fails: the stored sample is not the sample before the rates were
  attached. After the first cycle of the scenario the sample stored for process 111 has the
  field \<^verbatim>\<open>packetsReceivedRate\<close>, which the sample did not have before the call.
\<close>

theorem stored_sample_counterexample:
  "map_of (heap st0 0) ''packetsReceivedRate'' = None
   \<and> prev_data (snd (add_rate_dispatch K0 ''111'' ''zookeeperStats'' 0 st0)) ''111'' = Some 0
   \<and> map_of (heap (snd (add_rate_dispatch K0 ''111'' ''zookeeperStats'' 0 st0)) 0)
        ''packetsReceivedRate'' = Some (PNum 0)
   \<and> heap (snd (add_rate_dispatch K0 ''111'' ''zookeeperStats'' 0 st0)) 0 \<noteq> heap st0 0"
  by (simp add: st0_def sample1_def add_rate_dispatch_def attach_rates_def
        add_default_rate_value_def setitem_def deepcopy_def dispatch_data_def
        utils_dispatch_def collectd_log_def)

text \<open>
  Claim C4. Every record that \<^verbatim>\<open>dispatch_data\<close> dispatches in the category
  \<^verbatim>\<open>zookeeperStats\<close> has neither \<^verbatim>\<open>packetsSent\<close> nor \<^verbatim>\<open>packetsReceived\<close>; and when
  \<^verbatim>\<open>add_rate_dispatch\<close> dispatches such a record, the sample it stored for the next rate
  computation still has both counters, with the values they had before the call.
\<close>

theorem raw_counters_stripped:
  "(\<forall>r \<in> set (new_dispatched s (snd (dispatch_data ''zookeeperStats'' b s))).
       map_of r ''packetsSent'' = None \<and> map_of r ''packetsReceived'' = None)
   \<and> (a < fresh s \<and> fst (add_rate_dispatch K pid ''zookeeperStats'' a s) = None \<longrightarrow>
        (\<exists>r. new_dispatched s (snd (add_rate_dispatch K pid ''zookeeperStats'' a s)) = [r]
            \<and> map_of r ''packetsSent'' = None \<and> map_of r ''packetsReceived'' = None)
      \<and> prev_data (snd (add_rate_dispatch K pid ''zookeeperStats'' a s)) pid = Some a
      \<and> map_of (heap (snd (add_rate_dispatch K pid ''zookeeperStats'' a s)) a) ''packetsSent''
           = map_of (heap s a) ''packetsSent''
      \<and> map_of (heap (snd (add_rate_dispatch K pid ''zookeeperStats'' a s)) a) ''packetsReceived''
           = map_of (heap s a) ''packetsReceived''
      \<and> map_of (heap s a) ''packetsSent'' \<noteq> None
      \<and> map_of (heap s a) ''packetsReceived'' \<noteq> None)"
proof -
  let ?D = "dispatch_data ''zookeeperStats'' b s"
  let ?R = "add_rate_dispatch K pid ''zookeeperStats'' a s"
  have 1: "\<forall>r \<in> set (new_dispatched s (snd ?D)).
       map_of r ''packetsSent'' = None \<and> map_of r ''packetsReceived'' = None"
  proof (cases "fst ?D = None")
    case True
    have "new_dispatched s (snd ?D) = [heap (snd ?D) b]"
      using dispatch_data_dispatched [of "''zookeeperStats''" b s] True
      by (simp add: new_dispatched_def)
    then show ?thesis using dispatch_data_heap_self [OF True] by simp
  next
    case False
    have "new_dispatched s (snd ?D) = []"
      using dispatch_data_dispatched [of "''zookeeperStats''" b s] False
      by (simp add: new_dispatched_def)
    then show ?thesis by simp
  qed
  have 2: "(\<exists>r. new_dispatched s (snd ?R) = [r]
            \<and> map_of r ''packetsSent'' = None \<and> map_of r ''packetsReceived'' = None)
      \<and> prev_data (snd ?R) pid = Some a
      \<and> map_of (heap (snd ?R) a) ''packetsSent'' = map_of (heap s a) ''packetsSent''
      \<and> map_of (heap (snd ?R) a) ''packetsReceived'' = map_of (heap s a) ''packetsReceived''
      \<and> map_of (heap s a) ''packetsSent'' \<noteq> None
      \<and> map_of (heap s a) ''packetsReceived'' \<noteq> None"
    if a: "a < fresh s" and ok: "fst ?R = None"
  proof -
    obtain e s1 where at: "attach_rates K pid a s = (e, s1)" by (cases "attach_rates K pid a s")
    have "e = None"
    proof (rule ccontr)
      assume "e \<noteq> None"
      then have "?R = attach_rates K pid a s"
        using add_rate_dispatch_no_store [of K pid a s] at by simp
      with ok at \<open>e \<noteq> None\<close> show False by simp
    qed
    with at have at': "attach_rates K pid a s = (None, s1)" by simp
    note st = add_rate_dispatch_stored [OF a at']
    note sn = add_rate_dispatch_sent [OF a at' ok]
    have s1: "s1 = snd (attach_rates K pid a s)" using at' by simp
    have keep: "map_of (heap s1 a) k = map_of (heap s a) k"
      if "k \<noteq> ''packetsReceivedRate''" "k \<noteq> ''packetsSentRate''" for k
      using attach_rates_heap_self [OF that, of K pid a s] by (simp add: s1)
    have present: "map_of (heap s1 a) ''packetsSent'' \<noteq> None \<and>
                   map_of (heap s1 a) ''packetsReceived'' \<noteq> None"
      using add_rate_dispatch_ok_iff [OF at', of "''zookeeperStats''"] ok by simp
    show ?thesis
      using st(1) present by (simp add: sn st(2) keep)
  qed
  from 1 2 show ?thesis by blast
qed

theorem raw_counters_stripped_witness:
  "0 < fresh st0 \<and> fst (add_rate_dispatch K0 ''111'' ''zookeeperStats'' 0 st0) = None
   \<and> new_dispatched st0 (snd (add_rate_dispatch K0 ''111'' ''zookeeperStats'' 0 st0)) =
       [[(''timestamp'', PNum 1000), (''packetsReceivedRate'', PNum 0), (''packetsSentRate'', PNum 0)]]
   \<and> map_of (heap (snd (add_rate_dispatch K0 ''111'' ''zookeeperStats'' 0 st0)) 0) ''packetsSent''
       = Some (PNum 50)
   \<and> map_of (heap (snd (add_rate_dispatch K0 ''111'' ''zookeeperStats'' 0 st0)) 0) ''packetsReceived''
       = Some (PNum 100)
   \<and> new_dispatched st0 (snd (dispatch_data ''zookeeperStats'' 0 st0)) =
       [[(''timestamp'', PNum 1000)]]"
  using raw_counters_stripped [of st0 0 0 K0 "''111''"]
  by (simp add: st0_def sample1_def add_rate_dispatch_def attach_rates_def
        add_default_rate_value_def setitem_def deepcopy_def dispatch_data_def
        utils_dispatch_def collectd_log_def new_dispatched_def)

lemma lost_collectd_log:
  "lost (collectd_log es s) = lost s + length (filter (\<lambda>e. e = ErrLostResult) es)"
  by (simp add: lost_def collectd_log_def)

lemma del_items_lost: "lost (snd (del_items ks b s)) = lost s"
  using del_items_frame [of ks b s] by (simp add: lost_def)

lemma dispatch_data_lost: "lost (snd (dispatch_data doc b s)) = lost s"
  using del_items_frame [of "[''packetsSent'', ''packetsReceived'']" b s]
  by (auto simp: dispatch_data_def utils_dispatch_def collectd_log_def lost_def
           split: prod.splits option.splits)

lemma get_rate_no_lost:
  "filter (\<lambda>e. e = ErrLostResult) (fst (get_rate K itv key cur prv)) = []"
  by (auto simp: get_rate_def Let_def split: option.splits bool.splits sum.splits if_splits)

lemma add_rate_key_lost: "lost (snd (add_rate_key K pid a key rk s)) = lost s"
proof (cases "prev_data s pid")
  case None
  then show ?thesis by (simp add: add_rate_key_def)
next
  case (Some p)
  obtain es r where g: "get_rate K (interval s) key (heap s a) (Some (heap s p)) = (es, r)"
    by (cases "get_rate K (interval s) key (heap s a) (Some (heap s p))")
  have "filter (\<lambda>e. e = ErrLostResult) es = []"
    using get_rate_no_lost [of K "interval s" key "heap s a" "Some (heap s p)"] g by simp
  then show ?thesis
    using Some g
    by (simp add: add_rate_key_def lost_def setitem_def collectd_log_def
             split: sum.splits rate.splits)
qed

lemma attach_rates_lost: "lost (snd (attach_rates K pid a s)) = lost s"
  using add_rate_key_lost [of K pid a "''packetsReceived''" "''packetsReceivedRate''" s]
        add_rate_key_lost [of K pid a "''packetsSent''" "''packetsSentRate''"
           "snd (add_rate_key K pid a ''packetsReceived'' ''packetsReceivedRate'' s)"]
  by (auto simp: attach_rates_def add_rate_def add_default_rate_value_def setitem_def lost_def
           split: prod.splits option.splits)

lemma add_rate_dispatch_lost: "lost (snd (add_rate_dispatch K pid doc a s)) = lost s"
proof (cases "fst (attach_rates K pid a s) = None")
  case True
  then have at: "attach_rates K pid a s = (None, snd (attach_rates K pid a s))"
    by (metis prod.collapse)
  show ?thesis
    using attach_rates_lost [of K pid a s]
    by (simp add: add_rate_dispatch_unfold [OF at] dispatch_data_lost)
       (simp add: lost_def)
next
  case False
  then show ?thesis
    using attach_rates_lost [of K pid a s] by (simp add: add_rate_dispatch_no_store)
qed

lemma add_rate_dispatch_gets: "gets (snd (add_rate_dispatch K pid doc a s)) = gets s"
proof (cases "fst (attach_rates K pid a s) = None")
  case True
  then have at: "attach_rates K pid a s = (None, snd (attach_rates K pid a s))"
    by (metis prod.collapse)
  show ?thesis
    using attach_rates_frame [of K pid a s] dispatch_data_frame
    by (simp add: add_rate_dispatch_unfold [OF at])
next
  case False
  then show ?thesis
    using attach_rates_frame [of K pid a s] by (simp add: add_rate_dispatch_no_store)
qed

lemma add_rate_dispatch_length:
  "fst (add_rate_dispatch K pid doc a s) = None \<Longrightarrow>
   length (dispatched (snd (add_rate_dispatch K pid doc a s))) = Suc (length (dispatched s))"
proof -
  assume ok: "fst (add_rate_dispatch K pid doc a s) = None"
  have "fst (attach_rates K pid a s) = None"
  proof (rule ccontr)
    assume "fst (attach_rates K pid a s) \<noteq> None"
    then show False using ok by (simp add: add_rate_dispatch_no_store)
  qed
  then have at: "attach_rates K pid a s = (None, snd (attach_rates K pid a s))"
    by (metis prod.collapse)
  let ?s1 = "snd (attach_rates K pid a s)"
  let ?s3 = "?s1\<lparr>prev_data := (prev_data ?s1)(pid \<mapsto> a),
                heap := (heap ?s1)(fresh ?s1 := heap ?s1 a), fresh := Suc (fresh ?s1)\<rparr>"
  have u: "add_rate_dispatch K pid doc a s = dispatch_data doc (fresh ?s1) ?s3"
    using at by (rule add_rate_dispatch_unfold)
  show ?thesis
    using dispatch_data_dispatched [of doc "fresh ?s1" ?s3] ok attach_rates_frame [of K pid a s]
    by (simp add: u)
qed

lemma drain_step_ok:
  assumes "drain_step K q s = (None, q', s')"
  shows "gets s' = Suc (gets s) \<and> q' = tl q
       \<and> length (dispatched s') = length (dispatched s) + (if q = [] then 0 else 1)
       \<and> lost s' = lost s + (if q = [] then 1 else 0)"
proof (cases q)
  case Nil
  then show ?thesis
    using assms by (auto simp: drain_step_def get_nowait_def collectd_log_def lost_def)
next
  case (Cons t ts)
  obtain pid doc d where t: "t = (pid, doc, d)" by (cases t)
  let ?s1 = "s\<lparr>heap := (heap s)(fresh s := d), fresh := Suc (fresh s), gets := Suc (gets s)\<rparr>"
  show ?thesis
  proof (cases "doc = ''zookeeperStats''")
    case True
    have r: "add_rate_dispatch K pid doc (fresh s) ?s1 = (None, s')" and "q' = ts"
      using assms Cons t True by (auto simp: drain_step_def get_nowait_def split: prod.splits)
    then show ?thesis
      using add_rate_dispatch_length [of K pid doc "fresh s" ?s1]
            add_rate_dispatch_lost [of K pid doc "fresh s" ?s1]
            add_rate_dispatch_gets [of K pid doc "fresh s" ?s1] Cons
      by (simp add: lost_def)
  next
    case False
    have r: "dispatch_data doc (fresh s) ?s1 = (None, s')" and "q' = ts"
      using assms Cons t False by (auto simp: drain_step_def get_nowait_def split: prod.splits)
    then show ?thesis
      using dispatch_data_dispatched [of doc "fresh s" ?s1]
            dispatch_data_lost [of doc "fresh s" ?s1]
            dispatch_data_frame [of doc "fresh s" ?s1] Cons
      by (simp add: lost_def)
  qed
qed

text \<open>
  When no dispatch raises, the inner loop pulls once per category, and the nested loops
  pull once per worker and category: the tuples present are dispatched and each pull
  beyond them logs one lost result.
\<close>

lemma drain_docs_ok:
  "drain_docs K docs q s = (None, q', s') \<Longrightarrow>
   gets s' = gets s + length docs \<and> q' = drop (length docs) q
   \<and> length (dispatched s') = length (dispatched s) + min (length docs) (length q)
   \<and> lost s' = lost s + (length docs - length q)"
proof (induction docs arbitrary: q s)
  case Nil
  then show ?case by simp
next
  case (Cons doc docs)
  obtain e q1 s1 where st: "drain_step K q s = (e, q1, s1)" by (cases "drain_step K q s")
  have e: "e = None" using Cons.prems st by (cases e) auto
  have rest: "drain_docs K docs q1 s1 = (None, q', s')" using Cons.prems st e by simp
  note a = drain_step_ok [OF st [unfolded e]]
  note b = Cons.IH [OF rest]
  show ?case
  proof (cases q)
    case Nil
    then show ?thesis using a b by simp
  next
    case (Cons t ts)
    then show ?thesis using a b by (simp add: drop_Suc)
  qed
qed

lemma drain_procs_ok:
  "drain_procs K procs q s = (None, q', s') \<Longrightarrow>
   gets s' = gets s + length procs * length ZOOK_DOCS
   \<and> q' = drop (length procs * length ZOOK_DOCS) q
   \<and> length (dispatched s') =
       length (dispatched s) + min (length procs * length ZOOK_DOCS) (length q)
   \<and> lost s' = lost s + (length procs * length ZOOK_DOCS - length q)"
proof (induction procs arbitrary: q s)
  case Nil
  then show ?case by simp
next
  case (Cons p procs)
  obtain e q1 s1 where st: "drain_docs K ZOOK_DOCS q s = (e, q1, s1)"
    by (cases "drain_docs K ZOOK_DOCS q s")
  have e: "e = None" using Cons.prems st by (cases e) auto
  have rest: "drain_procs K procs q1 s1 = (None, q', s')" using Cons.prems st e by simp
  note a = drain_docs_ok [OF st [unfolded e]]
  note b = Cons.IH [OF rest]
  show ?case using a b by (auto simp: min_def ac_simps)
qed

text \<open>The scenario of the spec: two workers, two categories, three tuples.\<close>

lemma drain_three:
  "fst (drain_procs K0 [''111'', ''222''] queue_three st_empty) = None"
  by (simp add: queue_three_def st_empty_def ZOOK_DOCS_def drain_step_def get_nowait_def
        jmx_record_def sample1_def add_rate_dispatch_def attach_rates_def
        add_default_rate_value_def setitem_def deepcopy_def dispatch_data_def
        utils_dispatch_def collectd_log_def)

lemma drain_three_counts:
  "gets (snd (snd (drain_procs K0 [''111'', ''222''] queue_three st_empty))) = 4
   \<and> length (dispatched (snd (snd (drain_procs K0 [''111'', ''222''] queue_three st_empty)))) = 3
   \<and> lost (snd (snd (drain_procs K0 [''111'', ''222''] queue_three st_empty))) = 1"
proof -
  obtain q' s' where r: "drain_procs K0 [''111'', ''222''] queue_three st_empty = (None, q', s')"
    using drain_three by (metis prod.collapse)
  have "gets s' = 4 \<and> length (dispatched s') = 3 \<and> lost s' = 1"
    using drain_procs_ok [OF r]
    by (simp add: ZOOK_DOCS_def queue_three_def st_empty_def lost_def)
  then show ?thesis by (simp only: r snd_conv)
qed

text \<open>
  Claim C5 at a failing input. Two workers, four tuples in the channel, none lost; the
  rate-bearing record of process 111 has no packet counters. The drain makes 2 pulls, not
  4: \<^verbatim>\<open>del result[item]\<close> raises \<^verbatim>\<open>KeyError\<close> in \<^verbatim>\<open>dispatch_data\<close>, nothing in
  \<^verbatim>\<open>collect_jmx_data\<close> catches it, the tuple pulled second is not dispatched and the two
  tuples of process 222 stay in the channel.
\<close>

theorem drain_stops_at_dispatch_error:
  "fst (drain_procs K0 [''111'', ''222''] queue_bad st_empty) = Some KeyError
   \<and> gets (snd (snd (drain_procs K0 [''111'', ''222''] queue_bad st_empty))) = 2
   \<and> dispatched (snd (snd (drain_procs K0 [''111'', ''222''] queue_bad st_empty))) = [jmx_record]
   \<and> fst (snd (drain_procs K0 [''111'', ''222''] queue_bad st_empty)) =
       [(''222'', ''jmxStats'', jmx_record), (''222'', ''zookeeperStats'', sample2)]"
  by (simp add: queue_bad_def st_empty_def ZOOK_DOCS_def drain_step_def get_nowait_def
        jmx_record_def sample_no_counter_def add_rate_dispatch_def attach_rates_def
        add_default_rate_value_def setitem_def deepcopy_def dispatch_data_def
        utils_dispatch_def collectd_log_def)

text \<open>The port of a running agent is read from the second line of the status output.\<close>

lemma port_running:
  "fst (get_pid_port env_running ''111'' st_empty) = Inr (PStr ''8778'')"
  by (simp add: get_pid_port_def env_running_def splitlines_def split_def findall_digits_def
        is_digit_def index_def)

lemma port_one_line:
  "fst (get_pid_port env_one_line ''111'' st_empty) = Inl IndexError"
  by (simp add: get_pid_port_def env_one_line_def splitlines_def index_def)

lemma procs_running:
  "fst (run_pid_process env_running [''111'', ''222''] st_empty) = Inr [''111'', ''222'']"
  by (simp add: get_pid_port_def env_running_def splitlines_def split_def findall_digits_def
        is_digit_def index_def collectd_log_def st_empty_def split: prod.splits)

text \<open>
  Claim C9 at two failing inputs. In the first cycle both agents run and the channel holds
  the four tuples above: the \<^verbatim>\<open>KeyError\<close> of \<^verbatim>\<open>dispatch_data\<close> leaves
  \<^verbatim>\<open>collect_jmx_data\<close>. In the second cycle the status output of the agent has one line:
  \<^verbatim>\<open>status.splitlines()[1]\<close> raises \<^verbatim>\<open>IndexError\<close> in \<^verbatim>\<open>get_pid_port\<close>, and it
  leaves \<^verbatim>\<open>collect_jmx_data\<close> through \<^verbatim>\<open>run_pid_process\<close>.
\<close>

theorem cycle_raises:
  "fst (collect_jmx_data K0 env_running 0 (Some [''111'', ''222'']) (\<lambda>procs. queue_bad) st_empty)
     = Some KeyError
   \<and> fst (collect_jmx_data K0 env_one_line 0 (Some [''111'']) (\<lambda>procs. []) st_empty)
     = Some IndexError"
proof -
  have 1: "fst (collect_jmx_data K0 env_running 0 (Some [''111'', ''222''])
              (\<lambda>procs. queue_bad) st_empty) = Some KeyError"
    by (simp add: collect_jmx_data_def get_pid_port_def env_running_def splitlines_def
          split_def findall_digits_def is_digit_def index_def
          queue_bad_def st_empty_def ZOOK_DOCS_def drain_step_def get_nowait_def
          jmx_record_def sample_no_counter_def add_rate_dispatch_def attach_rates_def
          add_default_rate_value_def setitem_def deepcopy_def dispatch_data_def
          utils_dispatch_def collectd_log_def)
  have 2: "fst (collect_jmx_data K0 env_one_line 0 (Some [''111'']) (\<lambda>procs. []) st_empty)
             = Some IndexError"
    by (simp add: collect_jmx_data_def get_pid_port_def env_one_line_def splitlines_def
          index_def)
  from 1 2 show ?thesis by simp
qed

lemma rbind_simps [simp]:
  "rbind (Inr x) f = f x"
  "rbind (Inl e) f = Inl e"
  by (simp_all add: rbind_def)

lemma rbind_eq_Inr: "rbind m f = Inr y \<longleftrightarrow> (\<exists>x. m = Inr x \<and> f x = Inr y)"
  by (cases m) simp_all

lemma seq_Cons_Inr:
  "seq (f # fs) d = Inr d' \<longleftrightarrow> (\<exists>d1. f d = Inr d1 \<and> seq fs d1 = Inr d')"
  by (simp add: rbind_eq_Inr)

lemma seq_Nil_Inr: "seq [] d = Inr d' \<longleftrightarrow> d' = d"
  by auto

lemma assign_Inr:
  "assign k e d = Inr d' \<longleftrightarrow> (\<exists>v. e = Inr v \<and> d' = AList.update k v d)"
  by (auto simp: assign_def rbind_eq_Inr)

lemma call_handle_neg_bytes_Inr:
  "call_handle_neg_bytes e k d = Inr d' \<longleftrightarrow> (\<exists>v. e = Inr v \<and> handle_neg_bytes v k d = Inr d')"
  by (simp add: call_handle_neg_bytes_def rbind_eq_Inr)



text \<open>
  Where the rounding to binary64 shows: 15000000 ns, 15 ms and the rate 60 / 4000 are
  the float below \<open>3 / 200\<close>, and \<^verbatim>\<open>round\<close> takes them down to \<^verbatim>\<open>0.01\<close>.
\<close>

lemma binary64_rounding:
  "nanos (PNum 15000000) = Inr (PNum (1 / 100))"
  "millis (PNum 15) = Inr (PNum (1 / 100))"
  "py_round (fl (60 / 4000)) 2 = 1 / 100"
  "py_round (60 / 4000) 2 = 1 / 50"
  by code_simp+

lemma handle_neg_bytes_num:
  "handle_neg_bytes (PNum x) k d =
     (if x = - 1 \<or> float_range x then Inr (AList.update k (PNum (spec_bytes x)) d)
      else Inl OverflowError)"
  by (simp add: handle_neg_bytes_def eq_num_def megabytes_def spec_bytes_def to_float_def)

lemma handle_neg_bytes_num_Inr:
  "handle_neg_bytes (PNum x) k d = Inr d' \<Longrightarrow> d' = AList.update k (PNum (spec_bytes x)) d"
  by (simp add: handle_neg_bytes_num split: if_splits)

lemma handle_neg_bytes_Inr:
  "handle_neg_bytes v k d = Inr d' \<Longrightarrow>
   \<exists>x. as_num v = Some x \<and> d' = AList.update k (if x = - 1 then v else PNum (spec_bytes x)) d"
  by (cases "as_num v")
     (auto simp: handle_neg_bytes_def eq_num_def megabytes_def spec_bytes_def to_float_def
        split: if_splits)

lemma add_memory_parameters_init_max:
  assumes "client (Read ''java.lang:type=Memory'' None) = Inr r"
    and "status_200 r = Inr True"
    and "path r [''value'', ''HeapMemoryUsage''] = Inr hp"
    and "path r [''value'', ''NonHeapMemoryUsage''] = Inr nh"
    and "subscript hp ''init'' = Inr (PNum hi)" and "subscript hp ''max'' = Inr (PNum hm)"
    and "subscript nh ''init'' = Inr (PNum ni)" and "subscript nh ''max'' = Inr (PNum nm)"
    and "add_memory_parameters client d = Inr d'"
  shows "map_of d' ''heapMemoryUsageInit'' = Some (PNum (spec_bytes hi))
       \<and> map_of d' ''heapMemoryUsageMax'' = Some (PNum (spec_bytes hm))
       \<and> map_of d' ''nonHeapMemoryUsageInit'' = Some (PNum (spec_bytes ni))
       \<and> map_of d' ''nonHeapMemoryUsageMax'' = Some (PNum (spec_bytes nm))"
  using assms
  unfolding add_memory_parameters_def
  by (auto simp: rbind_eq_Inr seq_Cons_Inr seq_Nil_Inr assign_Inr call_handle_neg_bytes_Inr
        update_conv' simp del: path.simps seq.simps dest!: handle_neg_bytes_num_Inr)

lemma growsI:
  "(\<And>d d' k. f d = Inr d' \<Longrightarrow> map_of d k \<noteq> None \<Longrightarrow> map_of d' k \<noteq> None) \<Longrightarrow> grows f"
  unfolding grows_def by blast

lemma growsD: "grows f \<Longrightarrow> f d = Inr d' \<Longrightarrow> map_of d k \<noteq> None \<Longrightarrow> map_of d' k \<noteq> None"
  unfolding grows_def by blast

lemma grows_assign: "grows (assign k e)"
  by (rule growsI) (auto simp: assign_Inr update_conv')

lemma grows_handle_neg_bytes: "grows (handle_neg_bytes v k)"
  by (rule growsI) (auto simp: handle_neg_bytes_def rbind_eq_Inr update_conv' split: if_splits)

lemma grows_call_handle_neg_bytes: "grows (call_handle_neg_bytes e k)"
  using grows_handle_neg_bytes [unfolded grows_def]
  unfolding grows_def call_handle_neg_bytes_Inr by blast

lemma grows_seq: "(\<And>f. f \<in> set fs \<Longrightarrow> grows f) \<Longrightarrow> grows (seq fs)"
proof (induction fs)
  case Nil
  then show ?case by (simp add: grows_def)
next
  case (Cons f fs)
  have f: "grows f" and fs: "grows (seq fs)" using Cons by simp_all
  show ?case
  proof (rule growsI)
    fix d d' k assume "seq (f # fs) d = Inr d'" and k: "map_of d k \<noteq> None"
    then obtain d1 where "f d = Inr d1" "seq fs d1 = Inr d'" by (auto simp: rbind_eq_Inr)
    then show "map_of d' k \<noteq> None"
      using f fs k unfolding grows_def by blast
  qed
qed

lemma grows_for_each: "(\<And>x. x \<in> set xs \<Longrightarrow> grows (f x)) \<Longrightarrow> grows (for_each f xs)"
proof (induction xs)
  case Nil
  then show ?case by (simp add: grows_def)
next
  case (Cons x xs)
  have f: "grows (f x)" and fs: "grows (for_each f xs)" using Cons by simp_all
  show ?case
  proof (rule growsI)
    fix d d' k assume "for_each f (x # xs) d = Inr d'" and k: "map_of d k \<noteq> None"
    then obtain d1 where "f x d = Inr d1" "for_each f xs d1 = Inr d'"
      by (auto simp: rbind_eq_Inr)
    then show "map_of d' k \<noteq> None"
      using f fs k unfolding grows_def by blast
  qed
qed

lemma grows_when_200: "(\<And>resp. grows (body resp)) \<Longrightarrow> grows (when_200 client req body)"
proof (rule growsI)
  fix d d' k
  assume b: "\<And>resp. grows (body resp)"
    and r: "when_200 client req body d = Inr d'" and k: "map_of d k \<noteq> None"
  from r obtain resp ok where "client req = Inr resp" "status_200 resp = Inr ok"
    and d': "(if ok then body resp d else Inr d) = Inr d'"
    by (auto simp: when_200_def rbind_eq_Inr)
  show "map_of d' k \<noteq> None"
  proof (cases ok)
    case True
    then show ?thesis using d' b [of resp] k unfolding grows_def by auto
  next
    case False
    then show ?thesis using d' k by simp
  qed
qed

lemma grows_jmxstats_gc: "grows (jmxstats_gc client gc_name)"
proof -
  have "grows (when_200 client req (\<lambda>gc_values.
                  seq
                    [assign (no_spaces gc_name @ ''CollectionTime'')
                       (rbind (path gc_values [''value'', ''CollectionTime'']) millis),
                     assign (no_spaces gc_name @ ''CollectionCount'')
                       (path gc_values [''value'', ''CollectionCount''])]))" for req
    by (intro grows_when_200 grows_seq) (auto simp: grows_assign)
  then have w: "grows (when_200 client
         (Read (''java.lang:type=GarbageCollector,name='' @ gc_name)
            (Some ''CollectionTime,CollectionCount''))
         (\<lambda>gc_values.
                  seq
                    [assign (no_spaces gc_name @ ''CollectionTime'')
                       (rbind (path gc_values [''value'', ''CollectionTime'']) millis),
                     assign (no_spaces gc_name @ ''CollectionCount'')
                       (path gc_values [''value'', ''CollectionCount''])]))" .
  show ?thesis
  proof (rule growsI)
    fix d d' k
    assume r: "jmxstats_gc client gc_name d = Inr d'" and k: "map_of d k \<noteq> None"
    from r obtain valid where
      "(if \<not> valid then Inr d else when_200 client
         (Read (''java.lang:type=GarbageCollector,name='' @ gc_name)
            (Some ''CollectionTime,CollectionCount''))
         (\<lambda>gc_values.
                  seq
                    [assign (no_spaces gc_name @ ''CollectionTime'')
                       (rbind (path gc_values [''value'', ''CollectionTime'']) millis),
                     assign (no_spaces gc_name @ ''CollectionCount'')
                       (path gc_values [''value'', ''CollectionCount''])]) d) = Inr d'"
      unfolding jmxstats_gc_def Let_def rbind_eq_Inr by blast
    then show "map_of d' k \<noteq> None"
      using growsD [OF w _ k, of d'] k by (cases valid) auto
  qed
qed

lemma grows_jmxstats_mp: "grows (jmxstats_mp client pool_name)"
proof -
  have "grows (when_200 client req (\<lambda>mp_values.
                  assign (no_spaces pool_name @ ''UsageUsed'')
                    (rbind (path mp_values [''value'', ''used'']) megabytes)))" for req
    by (intro grows_when_200 grows_assign)
  then have w: "grows (when_200 client
         (Read (''java.lang:type=MemoryPool,name='' @ pool_name) (Some ''Usage''))
         (\<lambda>mp_values.
                  assign (no_spaces pool_name @ ''UsageUsed'')
                    (rbind (path mp_values [''value'', ''used'']) megabytes)))" .
  show ?thesis
  proof (rule growsI)
    fix d d' k
    assume r: "jmxstats_mp client pool_name d = Inr d'" and k: "map_of d k \<noteq> None"
    from r obtain valid where
      "(if \<not> valid then Inr d else when_200 client
         (Read (''java.lang:type=MemoryPool,name='' @ pool_name) (Some ''Usage''))
         (\<lambda>mp_values.
                  assign (no_spaces pool_name @ ''UsageUsed'')
                    (rbind (path mp_values [''value'', ''used'']) megabytes)) d) = Inr d'"
      unfolding jmxstats_mp_def Let_def rbind_eq_Inr by blast
    then show "map_of d' k \<noteq> None"
      using growsD [OF w _ k, of d'] k by (cases valid) auto
  qed
qed

lemma for_each_assign_const:
  "for_each (\<lambda>p. assign p (Inr v)) ps d = Inr d' \<Longrightarrow>
   map_of d' k = (if k \<in> set ps then Some v else map_of d k)"
  by (induction ps arbitrary: d d') (auto simp: rbind_eq_Inr assign_Inr update_conv' split: if_splits)

lemma jmxstats_fixed_defaults:
  "jmxstats_fixed client d = Inr d1 \<Longrightarrow> k \<in> set param_list \<Longrightarrow> map_of d1 k = Some (PNum 0)"
  unfolding jmxstats_fixed_def
  by (auto simp: seq_Cons_Inr seq_Nil_Inr dest!: for_each_assign_const [where k = k]
           simp del: seq.simps for_each.simps)

lemma jmxstats_gc_skip:
  "\<not> detail_ok client (''java.lang:type=GarbageCollector,name='' @ gc_name)
        ''CollectionTime,CollectionCount'' \<Longrightarrow>
   jmxstats_gc client gc_name d = Inr d' \<Longrightarrow> d' = d"
  by (auto simp: jmxstats_gc_def detail_ok_def when_200_def Let_def rbind_eq_Inr
           split: if_splits sum.splits)

lemma jmxstats_mp_skip:
  "\<not> detail_ok client (''java.lang:type=MemoryPool,name='' @ pool_name) ''Usage'' \<Longrightarrow>
   jmxstats_mp client pool_name d = Inr d' \<Longrightarrow> d' = d"
  by (auto simp: jmxstats_mp_def detail_ok_def when_200_def Let_def rbind_eq_Inr
           split: if_splits sum.splits)

lemma for_each_skip:
  "(\<And>x d d'. x \<in> set xs \<Longrightarrow> f x d = Inr d' \<Longrightarrow> d' = d) \<Longrightarrow>
   for_each f xs d = Inr d' \<Longrightarrow> d' = d"
proof (induction xs arbitrary: d)
  case Nil
  then show ?case by simp
next
  case (Cons x xs)
  from Cons.prems(2) obtain d1 where 1: "f x d = Inr d1" and 2: "for_each f xs d1 = Inr d'"
    by (auto simp: rbind_eq_Inr)
  have "d1 = d" using Cons.prems(1) [of x d d1] 1 by simp
  moreover have "d' = d1"
  proof (rule Cons.IH [OF _ 2])
    fix y e e' assume "y \<in> set xs" "f y e = Inr e'"
    then show "e' = e" using Cons.prems(1) [of y e e'] by simp
  qed
  ultimately show ?case by simp
qed

lemma names_loop_subset:
  "snd (names_loop allowed err kvs) = Inr names \<Longrightarrow> set names \<subseteq> set allowed"
proof (induction kvs arbitrary: names)
  case Nil
  then show ?case by simp
next
  case (Cons kv kvs)
  obtain k v where kv: "kv = (k, v)" by (cases kv)
  show ?case
    using Cons.prems Cons.IH
    by (auto simp: kv rbind_eq_Inr split: sum.splits prod.splits pyval.splits if_splits)
qed

lemma get_names_subset:
  "snd (get_names mbean allowed err client) = Inr names \<Longrightarrow> set names \<subseteq> set allowed"
  using names_loop_subset [of allowed err _ names]
  by (auto simp: get_names_def split: sum.splits bool.splits pyval.splits)

lemma add_jmxstats_parameters_Inr:
  assumes "snd (add_jmxstats_parameters client d) = Inr d'"
  obtains d1 gc_names d2 mp_names where
    "jmxstats_fixed client d = Inr d1"
    "snd (get_gc_names client) = Inr gc_names"
    "for_each (jmxstats_gc client) gc_names d1 = Inr d2"
    "snd (get_memory_pool_names client) = Inr mp_names"
    "for_each (jmxstats_mp client) mp_names d2 = Inr d'"
  using assms
  by (auto simp: add_jmxstats_parameters_def split: sum.splits prod.splits)

text \<open>
  Claim C10. Every record that \<^verbatim>\<open>add_jmxstats_parameters\<close> returns has the ten
  pre-declared keys; they are set to 0 by the fixed part of the routine, before the first
  name query; and they still are 0 in the record when no detail query of an allow-listed
  collector or pool is answered (validity gate not passed, or a status other than 200).
\<close>

theorem jmxstats_defaults:
  assumes "snd (add_jmxstats_parameters client d) = Inr d'"
  shows "(\<forall>k \<in> set param_list. map_of d' k \<noteq> None)
       \<and> (\<forall>d1. jmxstats_fixed client d = Inr d1 \<longrightarrow>
              (\<forall>k \<in> set param_list. map_of d1 k = Some (PNum 0)))
       \<and> ((\<forall>n \<in> set DEFAULT_GC.
              \<not> detail_ok client (''java.lang:type=GarbageCollector,name='' @ n)
                   ''CollectionTime,CollectionCount'')
          \<and> (\<forall>n \<in> set DEFAULT_MP.
              \<not> detail_ok client (''java.lang:type=MemoryPool,name='' @ n) ''Usage'')
          \<longrightarrow> (\<forall>k \<in> set param_list. map_of d' k = Some (PNum 0)))"
proof -
  from assms obtain d1 gc_names d2 mp_names where
    fixed: "jmxstats_fixed client d = Inr d1"
    and gcn: "snd (get_gc_names client) = Inr gc_names"
    and gc: "for_each (jmxstats_gc client) gc_names d1 = Inr d2"
    and mpn: "snd (get_memory_pool_names client) = Inr mp_names"
    and mp: "for_each (jmxstats_mp client) mp_names d2 = Inr d'"
    by (rule add_jmxstats_parameters_Inr)
  have zero: "map_of d1 k = Some (PNum 0)" if "k \<in> set param_list" for k
    using jmxstats_fixed_defaults [OF fixed that] .
  have g1: "grows (for_each (jmxstats_gc client) gc_names)"
    by (rule grows_for_each) (rule grows_jmxstats_gc)
  have g2: "grows (for_each (jmxstats_mp client) mp_names)"
    by (rule grows_for_each) (rule grows_jmxstats_mp)
  have present: "map_of d' k \<noteq> None" if "k \<in> set param_list" for k
  proof -
    have "map_of d1 k \<noteq> None" using zero [OF that] by simp
    then have "map_of d2 k \<noteq> None" using growsD [OF g1 gc] by blast
    then show ?thesis using growsD [OF g2 mp] by blast
  qed
  have still: "map_of d' k = Some (PNum 0)"
    if ngc: "\<forall>n \<in> set DEFAULT_GC.
              \<not> detail_ok client (''java.lang:type=GarbageCollector,name='' @ n)
                   ''CollectionTime,CollectionCount''"
      and nmp: "\<forall>n \<in> set DEFAULT_MP.
              \<not> detail_ok client (''java.lang:type=MemoryPool,name='' @ n) ''Usage''"
      and k: "k \<in> set param_list" for k
  proof -
    have sg: "set gc_names \<subseteq> set DEFAULT_GC"
      using get_names_subset gcn unfolding get_gc_names_def by blast
    have sm: "set mp_names \<subseteq> set DEFAULT_MP"
      using get_names_subset mpn unfolding get_memory_pool_names_def by blast
    have "d2 = d1"
    proof (rule for_each_skip [OF _ gc])
      fix x e e' assume "x \<in> set gc_names" "jmxstats_gc client x e = Inr e'"
      then show "e' = e" using jmxstats_gc_skip [of client x e e'] ngc sg by blast
    qed
    moreover have "d' = d2"
    proof (rule for_each_skip [OF _ mp])
      fix x e e' assume "x \<in> set mp_names" "jmxstats_mp client x e = Inr e'"
      then show "e' = e" using jmxstats_mp_skip [of client x e e'] nmp sm by blast
    qed
    ultimately show ?thesis using zero [OF k] by simp
  qed
  have fixed_zero: "\<forall>e1. jmxstats_fixed client d = Inr e1 \<longrightarrow>
              (\<forall>k \<in> set param_list. map_of e1 k = Some (PNum 0))"
    using jmxstats_fixed_defaults by blast
  from present still fixed_zero show ?thesis by blast
qed

lemma status_404: "status_200 (PDict [(''status'', PNum 404)]) = Inr False"
  by (simp add: status_200_def getitem_def eq_num_def)

lemma jmxstats_404:
  "add_jmxstats_parameters client_404 [] = ([], Inr (map (\<lambda>k. (k, PNum 0)) param_list))"
  by (simp add: add_jmxstats_parameters_def jmxstats_fixed_def when_200_def client_404_def
        status_404 get_gc_names_def get_memory_pool_names_def get_names_def param_list_def
        assign_def)

theorem jmxstats_defaults_witness:
  "snd (add_jmxstats_parameters client_404 []) = Inr (map (\<lambda>k. (k, PNum 0)) param_list)
   \<and> map_of (map (\<lambda>k. (k, PNum 0)) param_list) ''G1OldGenUsageUsed'' = Some (PNum 0)
   \<and> map_of (map (\<lambda>k. (k, PNum 0)) param_list) ''G1YoungGenerationCollectionCount''
       = Some (PNum 0)"
  using jmxstats_defaults [of client_404 "[]" "map (\<lambda>k. (k, PNum 0)) param_list"]
  by (simp add: jmxstats_404) (simp add: param_list_def)

lemma process_cpu_time_num:
  "process_cpu_time (PNum x) = (if 0 \<le> x then nanos (PNum x) else Inr (PNum x))"
  by (simp add: process_cpu_time_def)

lemma nanos_num:
  "nanos (PNum x) = (if float_range x then Inr (PNum (spec_seconds x)) else Inl OverflowError)"
  by (simp add: nanos_def to_float_def spec_seconds_def)

lemma nanos_num_Inr: "nanos (PNum x) = Inr v \<Longrightarrow> v = PNum (spec_seconds x)"
  by (simp add: nanos_num split: if_splits)


text \<open>
  The process CPU time has the guard: a negative value is stored as it is, a non-negative
  one converted.
\<close>

lemma os_process_cpu_time:
  assumes "client (Read ''java.lang:type=OperatingSystem'' None) = Inr ops"
    and "status_200 ops = Inr True"
    and "path ops [''value'', ''ProcessCpuTime''] = Inr (PNum x)"
    and "add_operating_system_parameters client d = Inr d'"
  shows "map_of d' ''processCpuTime'' = Some (PNum (if 0 \<le> x then spec_seconds x else x))"
  using assms
  unfolding add_operating_system_parameters_def
  by (auto simp: rbind_eq_Inr seq_Cons_Inr seq_Nil_Inr assign_Inr process_cpu_time_num
        update_conv' simp del: path.simps seq.simps dest!: nanos_num_Inr)

text \<open>
  The two thread CPU times are written when the flag \<^verbatim>\<open>CurrentThreadCpuTimeSupported\<close>
  is true, and only then; a non-negative value is stored converted.
\<close>

lemma thread_cpu_time:
  assumes "client (Read ''java.lang:type=Threading'' None) = Inr tj"
    and "status_200 tj = Inr True"
    and "path tj [''value'', ''CurrentThreadCpuTimeSupported''] = Inr flag"
    and "path tj [''value'', ''CurrentThreadCpuTime''] = Inr (PNum c)"
    and "path tj [''value'', ''CurrentThreadUserTime''] = Inr (PNum u)"
    and "add_threading_parameters client d = Inr d'"
  shows "truthy flag \<Longrightarrow>
           map_of d' ''currentThreadCpuTime'' = Some (PNum (spec_seconds c))
         \<and> map_of d' ''currentThreadUserTime'' = Some (PNum (spec_seconds u))"
    and "\<not> truthy flag \<Longrightarrow>
           map_of d' ''currentThreadCpuTime'' = map_of d ''currentThreadCpuTime''
         \<and> map_of d' ''currentThreadUserTime'' = map_of d ''currentThreadUserTime''"
  using assms
  unfolding add_threading_parameters_def
  by (auto simp: rbind_eq_Inr seq_Cons_Inr seq_Nil_Inr assign_Inr
        update_conv' simp del: path.simps seq.simps dest!: nanos_num_Inr)












lemma g1_hidden_names:
  "get_gc_names client_g1_hidden = ([], Inr [''G1 Old Generation''])"
  "get_memory_pool_names client_g1_hidden = ([], Inr [''Metaspace''])"
  by (simp_all add: get_gc_names_def get_memory_pool_names_def get_names_def
        client_g1_hidden_def status_200_def getitem_def eq_num_def
        DEFAULT_GC_def DEFAULT_MP_def)







end
